theory Spec2Isabelle
  imports Complex_Main "HOL-Library.Sublist"
begin

section \<open>JavaScript values used by the pipeline front end\<close>

text \<open>
  The front end is untyped JavaScript. A property that the code itself guards with
  \<^verbatim>\<open>x || default\<close> is modelled as an \<open>option\<close> (\<open>None\<close> is \<^verbatim>\<open>undefined\<close>);
  a property the code reads without a guard is modelled at the type the data model gives it.
\<close>

definition truthy_str :: "string option \<Rightarrow> bool" where
  \<comment> \<open>truthiness of a possibly missing string: \<^verbatim>\<open>undefined\<close> and \<^verbatim>\<open>''\<close> are falsy\<close>
  "truthy_str x = (case x of None \<Rightarrow> False | Some s \<Rightarrow> s \<noteq> [])"

definition truthy_num :: "nat option \<Rightarrow> bool" where
  \<comment> \<open>truthiness of a possibly missing count: \<^verbatim>\<open>undefined\<close> and \<^verbatim>\<open>0\<close> are falsy\<close>
  "truthy_num x = (case x of None \<Rightarrow> False | Some n \<Rightarrow> n \<noteq> 0)"

definition or_str :: "string option \<Rightarrow> string \<Rightarrow> string" where
  \<comment> \<open>\<^verbatim>\<open>x || d\<close> for a possibly missing string \<open>x\<close>\<close>
  "or_str x d = (if truthy_str x then the x else d)"

definition or_num :: "nat option \<Rightarrow> nat \<Rightarrow> nat" where
  \<comment> \<open>\<^verbatim>\<open>x || d\<close> for a possibly missing count \<open>x\<close>\<close>
  "or_num x d = (if truthy_num x then the x else d)"

definition or_list :: "'a list option \<Rightarrow> 'a list" where
  \<comment> \<open>\<^verbatim>\<open>xs || []\<close>: every array, also the empty one, is truthy\<close>
  "or_list xs = (case xs of None \<Rightarrow> [] | Some l \<Rightarrow> l)"

section \<open>The PRD tree\<close>

record feature =
  feat_name :: string
  feat_description :: "string option"
  feat_complexity :: "string option"

record user_story =
  story_title :: string
  story_text :: string
  acceptance_criteria :: "string list"
  features :: "feature list option"

record epic =
  epic_name :: string
  epic_description :: string
  epic_priority :: "string option"
  user_stories :: "user_story list option"

record product_overview =
  vision :: string
  goals :: "string list"
  success_metrics :: "string list"

record prd =
  overview :: product_overview
  epics :: "epic list option"

text \<open>The entries of the flat list that \<^verbatim>\<open>flattenFeatures\<close> builds.\<close>

record feature_ref =
  ref_epic :: string
  ref_epicPriority :: string
  ref_story :: string
  ref_name :: string
  ref_description :: string
  ref_complexity :: string

subsection \<open>countFeatures\<close>

text \<open>
  \<^verbatim>\<open>count += (story.features || []).length\<close> in the two nested \<^verbatim>\<open>for ... of\<close> loops;
  each loop is a recursion over the list it walks, with the counter passed along.
\<close>

fun countFeatures_stories :: "nat \<Rightarrow> user_story list \<Rightarrow> nat" where
  "countFeatures_stories count [] = count"
| "countFeatures_stories count (story # rest) =
     countFeatures_stories (count + length (or_list (features story))) rest"

fun countFeatures_epics :: "nat \<Rightarrow> epic list \<Rightarrow> nat" where
  "countFeatures_epics count [] = count"
| "countFeatures_epics count (e # rest) =
     countFeatures_epics (countFeatures_stories count (or_list (user_stories e))) rest"

definition countFeatures :: "prd \<Rightarrow> nat" where
  "countFeatures p = countFeatures_epics 0 (or_list (epics p))"

subsection \<open>flattenFeatures\<close>

definition mk_feature_ref :: "epic \<Rightarrow> user_story \<Rightarrow> feature \<Rightarrow> feature_ref" where
  "mk_feature_ref e story feat =
     \<lparr> ref_epic = epic_name e,
       ref_epicPriority = or_str (epic_priority e) ''P1'',
       ref_story = story_title story,
       ref_name = feat_name feat,
       ref_description = or_str (feat_description feat) '''',
       ref_complexity = or_str (feat_complexity feat) ''M'' \<rparr>"

fun flattenFeatures_feats ::
  "epic \<Rightarrow> user_story \<Rightarrow> feature_ref list \<Rightarrow> feature list \<Rightarrow> feature_ref list" where
  "flattenFeatures_feats e story acc [] = acc"
| "flattenFeatures_feats e story acc (feat # rest) =
     flattenFeatures_feats e story (acc @ [mk_feature_ref e story feat]) rest"

fun flattenFeatures_stories ::
  "epic \<Rightarrow> feature_ref list \<Rightarrow> user_story list \<Rightarrow> feature_ref list" where
  "flattenFeatures_stories e acc [] = acc"
| "flattenFeatures_stories e acc (story # rest) =
     flattenFeatures_stories e
       (flattenFeatures_feats e story acc (or_list (features story))) rest"

fun flattenFeatures_epics :: "feature_ref list \<Rightarrow> epic list \<Rightarrow> feature_ref list" where
  "flattenFeatures_epics acc [] = acc"
| "flattenFeatures_epics acc (e # rest) =
     flattenFeatures_epics (flattenFeatures_stories e acc (or_list (user_stories e))) rest"

definition flattenFeatures :: "prd \<Rightarrow> feature_ref list" where
  "flattenFeatures p = flattenFeatures_epics [] (or_list (epics p))"

section \<open>Strings\<close>

text \<open>
  A string is a list of 8-bit characters, read as the code units of the source's UTF-16
  string: the type holds the strings whose code units are below 256, and \<open>length\<close> is the
  source's \<^verbatim>\<open>length\<close>. Of these characters, the ones that \<^verbatim>\<open>trim\<close> strips and \<^verbatim>\<open>\s\<close> matches
  are tab, line feed, vertical tab, form feed, carriage return, space and the no-break space
  U+00A0; the other spaces of Unicode (U+FEFF, U+2028, U+2029 and the space separators
  from U+1680 on) are not characters of the type. The few glyphs of the user interface
  above that range are written as their UTF-8 bytes; they occur in displayed text only.
\<close>

definition is_space :: "char \<Rightarrow> bool" where
  \<comment> \<open>the white space and line terminators of the language, below 256\<close>
  "is_space c =
     (c \<in> set [CHR 0x09, CHR 0x0A, CHR 0x0B, CHR 0x0C, CHR 0x0D, CHR '' '', CHR 0xA0])"

definition js_trim :: "string \<Rightarrow> string" where
  \<comment> \<open>\<^verbatim>\<open>String.prototype.trim\<close>\<close>
  "js_trim s = rev (dropWhile is_space (rev (dropWhile is_space s)))"

definition template :: "string option \<Rightarrow> string" where
  \<comment> \<open>a template literal \<^verbatim>\<open>${x}\<close> renders a missing \<open>x\<close> as the word undefined\<close>
  "template x = (case x of None \<Rightarrow> ''undefined'' | Some s \<Rightarrow> s)"

definition check_mark :: string where
  "check_mark = [CHR 0xE2, CHR 0x9C, CHR 0x93]"

definition cross_mark :: string where
  "cross_mark = [CHR 0xE2, CHR 0x9C, CHR 0x97]"

definition warn_mark :: string where
  "warn_mark = [CHR 0xE2, CHR 0x9A, CHR 0xA0]"

definition em_dash :: string where
  "em_dash = [CHR 0xE2, CHR 0x80, CHR 0x94]"

fun escapeHtml :: "string \<Rightarrow> string" where
  \<comment> \<open>assigning \<^verbatim>\<open>textContent\<close> and reading \<^verbatim>\<open>innerHTML\<close>: the serialisation of a text node
      escapes the ampersand, the no-break space and the two angle brackets\<close>
  "escapeHtml [] = []"
| "escapeHtml (c # cs) =
     (if c = CHR ''&'' then ''&amp;''
      else if c = CHR 0xA0 then ''&nbsp;''
      else if c = CHR ''<'' then ''&lt;''
      else if c = CHR ''>'' then ''&gt;''
      else [c]) @ escapeHtml cs"

definition in_range :: "char \<Rightarrow> char \<Rightarrow> char \<Rightarrow> bool" where
  \<comment> \<open>a character range of a regular expression, by character code\<close>
  "in_range lo hi c = ((of_char lo :: nat) \<le> of_char c \<and> (of_char c :: nat) \<le> of_char hi)"

definition is_lower_digit_dash :: "char \<Rightarrow> bool" where
  \<comment> \<open>the character class \<^verbatim>\<open>[a-z0-9-]\<close>\<close>
  "is_lower_digit_dash c =
     (in_range CHR ''a'' CHR ''z'' c \<or> in_range CHR ''0'' CHR ''9'' c \<or> c = CHR ''-'')"

definition toLowerCase :: "string \<Rightarrow> string" where
  \<comment> \<open>on ASCII letters; the other letters below 256 have no ASCII lower case, and the one
      use of this function removes every non-ASCII character afterwards\<close>
  "toLowerCase s =
     map (\<lambda>c. if in_range CHR ''A'' CHR ''Z'' c then char_of (of_char c + (32::nat)) else c) s"

fun dash_spaces :: "bool \<Rightarrow> string \<Rightarrow> string" where
  \<comment> \<open>\<^verbatim>\<open>replace(/\s+/g, '-')\<close>: every maximal run of whitespace becomes one dash; the flag
      says that the character before was whitespace\<close>
  "dash_spaces in_run [] = []"
| "dash_spaces in_run (c # cs) =
     (if is_space c then (if in_run then dash_spaces True cs else CHR ''-'' # dash_spaces True cs)
      else c # dash_spaces False cs)"

definition repoName_of :: "string \<Rightarrow> string" where
  \<comment> \<open>\<^verbatim>\<open>title.toLowerCase().replace(/\s+/g, '-').replace(/[^a-z0-9-]/g, '')\<close>\<close>
  "repoName_of t = filter is_lower_digit_dash (dash_spaces False (toLowerCase t))"

section \<open>Settings, enhanced ideas and run records\<close>

record settings =
  geminiKey :: "string option"
  githubToken :: "string option"
  githubUsername :: "string option"
  anthropicKey :: "string option"
  privateRepos :: "bool option"

record tech_stack =
  frontend :: "string list"
  backend :: "string list"
  database :: "string list"
  infrastructure :: "string list"

record enhanced_idea =
  title :: "string option"
  idea_description :: "string option"
  target_users :: "string option"
  problem_statement :: "string option"
  key_value_props :: "string list"
  suggested_tech_stack :: "tech_stack option"

text \<open>What \<^verbatim>\<open>buildFallbackPRD\<close> returns and what a successful PRD response carries.\<close>

record prd_result =
  res_prd :: prd
  res_prd_markdown :: "string option"

text \<open>
  The identifier of a run is \<^verbatim>\<open>`run_${startTime}`\<close> until the backend assigns one.
\<close>

datatype run_id = Local_id int | Server_id string

text \<open>
  A run object. The source creates it with \<^verbatim>\<open>id\<close>, \<^verbatim>\<open>timestamp\<close> and \<^verbatim>\<open>status\<close>
  (the review-gate version also with \<^verbatim>\<open>startTime\<close> and \<^verbatim>\<open>apiRunning\<close>) and assigns
  the other properties as the run goes on; a property not yet assigned is \<open>None\<close>.
\<close>

record run =
  run_ident :: run_id
  timestamp :: string
  status :: string
  startTime :: "int option"
  apiRunning :: "bool option"
  projectTitle :: "string option"
  description :: "string option"
  enhancedIdea :: "enhanced_idea option"
  run_prd :: "prd option"
  prdMarkdown :: "string option"
  epicsCount :: "nat option"
  featuresCount :: "nat option"
  selectedFeatures :: "feature_ref list option"
  repoUrl :: "string option"
  repoFullName :: "string option"
  repoCreated :: "bool option"
  elapsedTime :: "string option"
  run_error :: "string option"

definition new_run :: "int \<Rightarrow> string \<Rightarrow> int option \<Rightarrow> bool option \<Rightarrow> run" where
  \<comment> \<open>the object literal assigned to \<^verbatim>\<open>currentRun\<close> when a run starts\<close>
  "new_run t0 stamp st api =
     \<lparr> run_ident = Local_id t0, timestamp = stamp, status = ''running'',
       startTime = st, apiRunning = api,
       projectTitle = None, description = None, enhancedIdea = None, run_prd = None,
       prdMarkdown = None, epicsCount = None, featuresCount = None, selectedFeatures = None,
       repoUrl = None, repoFullName = None, repoCreated = None, elapsedTime = None,
       run_error = None \<rparr>"

section \<open>The fallback content builders\<close>

definition buildFallbackEnhancedIdea :: "string \<Rightarrow> string \<Rightarrow> enhanced_idea" where
  "buildFallbackEnhancedIdea appIdea techPrefs =
     (let first_part =
            take 80 (takeWhile (\<lambda>c. c \<noteq> CHR 0x0A) (takeWhile (\<lambda>c. c \<noteq> CHR ''.'') (js_trim appIdea)));
          t = (if first_part = [] then ''Application Project'' else first_part)
      in \<lparr> title = Some t,
           idea_description = Some appIdea,
           target_users = Some ''End users who need the described functionality'',
           problem_statement = Some (take 200 appIdea),
           key_value_props = [''Solves the core need'', ''Modern architecture'', ''Production-ready''],
           suggested_tech_stack = Some
             \<lparr> frontend = [''React'', ''TypeScript''],
               backend = [''Python'', ''FastAPI''],
               database = [''PostgreSQL''],
               infrastructure = [''Docker''] \<rparr> \<rparr>)"

definition fallback_epics :: "epic list" where
  \<comment> \<open>the array literal of \<^verbatim>\<open>buildFallbackPRD\<close>\<close>
  "fallback_epics =
     [ \<lparr> epic_name = ''Project Foundation'',
         epic_description = ''Project setup and structure'',
         epic_priority = Some ''P0'',
         user_stories = Some
           [ \<lparr> story_title = ''Project Setup'',
               story_text = ''As a developer, I want a structured project so I can develop efficiently'',
               acceptance_criteria = [''Project structure follows best practices''],
               features = Some
                 [ \<lparr> feat_name = ''Scaffolding'',
                     feat_description = Some ''Create project structure'',
                     feat_complexity = Some ''S'' \<rparr> ] \<rparr> ] \<rparr>,
       \<lparr> epic_name = ''Core Features'',
         epic_description = ''Primary application functionality'',
         epic_priority = Some ''P0'',
         user_stories = Some
           [ \<lparr> story_title = ''Core Logic'',
               story_text = ''As a user, I want the main features so I can accomplish my goals'',
               acceptance_criteria = [''Core functionality works'', ''Error handling in place''],
               features = Some
                 [ \<lparr> feat_name = ''Business logic'',
                     feat_description = Some ''Main features'',
                     feat_complexity = Some ''L'' \<rparr>,
                   \<lparr> feat_name = ''UI'',
                     feat_description = Some ''User-facing interface'',
                     feat_complexity = Some ''M'' \<rparr> ] \<rparr> ] \<rparr>,
       \<lparr> epic_name = ''Data Layer'',
         epic_description = ''Data storage and access'',
         epic_priority = Some ''P0'',
         user_stories = Some
           [ \<lparr> story_title = ''Data Persistence'',
               story_text = ''As a user, I want data to persist so I can access it later'',
               acceptance_criteria = [''Data stored reliably'', ''CRUD operations work''],
               features = Some
                 [ \<lparr> feat_name = ''Database'',
                     feat_description = Some ''Data models and access'',
                     feat_complexity = Some ''M'' \<rparr> ] \<rparr> ] \<rparr>,
       \<lparr> epic_name = ''Testing'',
         epic_description = ''Automated testing'',
         epic_priority = Some ''P1'',
         user_stories = Some
           [ \<lparr> story_title = ''Automated Tests'',
               story_text = ''As a developer, I want tests so I can refactor safely'',
               acceptance_criteria = [''Tests cover core logic''],
               features = Some
                 [ \<lparr> feat_name = ''Unit tests'',
                     feat_description = Some ''Test core modules'',
                     feat_complexity = Some ''M'' \<rparr> ] \<rparr> ] \<rparr> ]"

definition buildFallbackPRD :: "enhanced_idea \<Rightarrow> prd_result" where
  "buildFallbackPRD e =
     \<lparr> res_prd =
         \<lparr> overview =
             \<lparr> vision = ''Build '' @ template (title e),
               goals = [''Deliver core functionality'', ''Clean codebase'', ''Good documentation''],
               success_metrics = [''All features implemented'', ''App runs without errors''] \<rparr>,
           epics = Some fallback_epics \<rparr>,
       res_prd_markdown = Some
         (''# PRD: '' @ template (title e) @ [CHR 0x0A, CHR 0x0A] @ template (idea_description e)
          @ [CHR 0x0A, CHR 0x0A] @ ''(Simulated PRD '' @ em_dash @ '' Gemini API not available)'') \<rparr>"

section \<open>The page, the network log and the application state\<close>

text \<open>
  The page is the part of the document that the code reads and writes. Which elements exist is
  fixed by the page; the markup that \<^verbatim>\<open>showResults\<close>, \<^verbatim>\<open>renderReviewSection\<close> and
  \<^verbatim>\<open>updateDashboard\<close> build is kept as the data it is built from, and the markup of a coloured
  status line as \<open>Span colour text\<close>.
\<close>

datatype status_line = Text string | Span string string

record dashboard =
  total_runs :: nat
  successful_runs :: nat
  avg_time :: string
  total_features :: nat
  recent_runs :: "run list"

record ui =
  idea_input :: string
  tech_preferences :: string
  step_view :: "string \<Rightarrow> string \<times> string"
  overall_progress :: int
  current_status :: status_line
  progress_section :: bool
  results_section :: bool
  prd_preview_section :: bool
  prd_review_section :: bool
  prd_preview_content :: string
  results_content :: "run option"
  enhanced_idea_summary :: "enhanced_idea option"
  feature_checklist :: "(nat \<times> bool) list"
  toasts :: "(string \<times> string \<times> string) list"
  dashboard_view :: dashboard

record run_request =
  rq_authorization :: "string option"
  rq_gemini_key :: string
  rq_github_token :: string
  rq_github_username :: string
  rq_app_idea :: string
  rq_tech_preferences :: "string option"
  rq_private :: bool

record project_files =
  file_prd_md :: string
  file_title :: "string option"
  file_description :: "string option"
  file_tech_stack :: "tech_stack option"
  file_epics_count :: "nat option"
  file_features_count :: "nat option"

text \<open>Every \<^verbatim>\<open>fetch\<close> and the opening of the event stream, in the order they are issued.\<close>

datatype net_call =
    GET_health
  | POST_validate_token "string option"
  | POST_run run_request
  | GET_stream string
  | GET_run string
  | POST_enhance_idea "string option" string "string option"
  | POST_generate_prd "string option" enhanced_idea
  | POST_create_repo "string option" string string bool
  | POST_push_files "string option" string project_files

record stream =
  stream_run_id :: string
  stream_startTime :: int
  closed :: bool

text \<open>
  The globals of the script and what it reaches through them. \<^verbatim>\<open>runHistory\<close> holds
  references to run objects and \<^verbatim>\<open>currentRun\<close> may refer to one of them, so the objects
  live in a store (\<open>objs\<close>, addressed by position) and the two globals hold addresses.
  \<open>stored_runHistory\<close> is the copy that \<^verbatim>\<open>localStorage.setItem\<close> last wrote.

  \<^verbatim>\<open>eventSource\<close> is a constant of the call of \<^verbatim>\<open>startRunWithSSE\<close> that creates it, and the
  handlers installed on it close over that call's \<^verbatim>\<open>eventSource\<close>, \<^verbatim>\<open>run_id\<close> and
  \<^verbatim>\<open>startTime\<close>, while \<^verbatim>\<open>currentRun\<close> is the one global. Nothing closes the stream of an
  earlier call when a later call starts, so \<open>eventSources\<close> holds every stream created so
  far, addressed by position, each with the constants of its call.

  The script is single-threaded. A handler of the stream runs from its call to its return.
  A start or continue function is an \<^verbatim>\<open>async\<close> function: it is modelled from its call to
  its last statement, with what it awaits given by the environment, and with no other
  callback of the page running between its awaits. The simulated delays (\<^verbatim>\<open>sleep\<close>) change
  nothing but the time.
\<close>

record app =
  objs :: "run list"
  currentRun :: "nat option"
  runHistory :: "nat list"
  settings :: settings
  authToken :: "string option"
  stored_runHistory :: "run list"
  stored_settings :: settings
  view :: ui
  net :: "net_call list"
  console :: "string list"
  eventSources :: "stream list"

definition history_records :: "app \<Rightarrow> run list" where
  \<comment> \<open>the run objects that \<^verbatim>\<open>runHistory\<close> refers to\<close>
  "history_records s = map (\<lambda>a. objs s ! a) (runHistory s)"

definition the_run :: "app \<Rightarrow> run option" where
  \<comment> \<open>the object that \<^verbatim>\<open>currentRun\<close> refers to\<close>
  "the_run s = (case currentRun s of None \<Rightarrow> None | Some a \<Rightarrow> Some (objs s ! a))"

definition step_ids :: "string list" where
  \<comment> \<open>the step elements of the page\<close>
  "step_ids = [''step-enhance'', ''step-prd'', ''step-github'', ''step-features'',
               ''step-implement'', ''step-publish'']"

definition updateStepStatus :: "string \<Rightarrow> string \<Rightarrow> string \<Rightarrow> ui \<Rightarrow> ui option" where
  \<comment> \<open>\<open>None\<close>: \<^verbatim>\<open>getElementById\<close> returned \<^verbatim>\<open>null\<close> and reading \<^verbatim>\<open>classList\<close> threw\<close>
  "updateStepStatus stepId st text u =
     (if stepId \<in> set step_ids
      then Some (u\<lparr>step_view := (step_view u)(stepId := (st, if text = [] then st else text))\<rparr>)
      else None)"

definition updateProgress :: "int \<Rightarrow> ui \<Rightarrow> ui" where
  "updateProgress percent u = u\<lparr>overall_progress := percent\<rparr>"

definition showToast :: "string \<Rightarrow> string \<Rightarrow> string \<Rightarrow> ui \<Rightarrow> ui" where
  "showToast ty ttl message u = u\<lparr>toasts := toasts u @ [(ty, ttl, message)]\<rparr>"

definition check_emoji :: string where
  "check_emoji = [CHR 0xE2, CHR 0x9C, CHR 0x85]"

definition showResults :: "run \<Rightarrow> ui \<Rightarrow> ui" where
  "showResults r u =
     u\<lparr>results_section := True,
       current_status :=
         Span ''success'' (check_emoji @ '' Build completed in '' @ template (elapsedTime r) @ ''s!''),
       results_content := Some r\<rparr>"

section \<open>The dashboard\<close>

text \<open>
  \<^verbatim>\<open>elapsedTime\<close> is assigned the result of \<^verbatim>\<open>toFixed(1)\<close>, which is a string, so the
  accumulator of \<^verbatim>\<open>reduce((sum, r) => sum + (r.elapsedTime || 0), 0)\<close> is a number or a string
  and \<^verbatim>\<open>+\<close> adds or concatenates. \<open>js_plus\<close> is \<^verbatim>\<open>+\<close> on such values.
\<close>

datatype jsval = Num nat | Str string

datatype jsnum = Fin rat | NaN

definition digit_char :: "nat \<Rightarrow> char" where
  \<comment> \<open>the character of a decimal digit \<open>d < 10\<close>\<close>
  "digit_char d = ''0123456789'' ! d"

fun show_nat :: "nat \<Rightarrow> string" where
  \<comment> \<open>\<^verbatim>\<open>ToString\<close> of a non-negative integer\<close>
  "show_nat n = (if n < 10 then [digit_char n] else show_nat (n div 10) @ [digit_char (n mod 10)])"

declare show_nat.simps [simp del]

fun js_plus :: "jsval \<Rightarrow> jsval \<Rightarrow> jsval" where
  "js_plus (Num a) (Num b) = Num (a + b)"
| "js_plus (Num a) (Str b) = Str (show_nat a @ b)"
| "js_plus (Str a) (Num b) = Str (a @ show_nat b)"
| "js_plus (Str a) (Str b) = Str (a @ b)"

definition is_digit :: "char \<Rightarrow> bool" where
  "is_digit c = in_range CHR ''0'' CHR ''9'' c"

definition digits_value :: "string \<Rightarrow> nat" where
  "digits_value ds = foldl (\<lambda>v c. 10 * v + (of_char c - of_char CHR ''0'')) 0 ds"

definition StringToNumber :: "string \<Rightarrow> jsnum" where
  \<comment> \<open>\<^verbatim>\<open>ToNumber\<close> of a string, for unsigned decimal literals without exponent: it is exact on
      every string of digits and dots, which is all that an accumulator built from \<^verbatim>\<open>0\<close> and
      the \<^verbatim>\<open>toFixed(1)\<close> renderings of elapsed times holds\<close>
  "StringToNumber s =
     (if s = [] then Fin 0
      else case dropWhile is_digit s of
             [] \<Rightarrow> Fin (of_nat (digits_value s))
           | c # fp \<Rightarrow>
               if c = CHR ''.'' \<and> list_all is_digit fp \<and> (takeWhile is_digit s \<noteq> [] \<or> fp \<noteq> [])
               then Fin (of_nat (digits_value (takeWhile is_digit s))
                         + of_nat (digits_value fp) / 10 ^ length fp)
               else NaN)"

definition ToNumber :: "jsval \<Rightarrow> jsnum" where
  "ToNumber v = (case v of Num n \<Rightarrow> Fin (of_nat n) | Str s \<Rightarrow> StringToNumber s)"

definition js_divide :: "jsval \<Rightarrow> nat \<Rightarrow> jsnum" where
  \<comment> \<open>\<^verbatim>\<open>v / n\<close> for a positive count \<open>n\<close>\<close>
  "js_divide v n = (case ToNumber v of NaN \<Rightarrow> NaN | Fin q \<Rightarrow> Fin (q / of_nat n))"

definition toFixed1 :: "(rat \<Rightarrow> string) \<Rightarrow> jsnum \<Rightarrow> string" where
  \<comment> \<open>\<^verbatim>\<open>x.toFixed(1)\<close>; the rendering \<open>tf\<close> of a finite number (to the nearest double, then to
      one decimal) is a parameter\<close>
  "toFixed1 tf x = (case x of NaN \<Rightarrow> ''NaN'' | Fin q \<Rightarrow> tf q)"

definition elapsed_operand :: "run \<Rightarrow> jsval" where
  \<comment> \<open>\<^verbatim>\<open>r.elapsedTime || 0\<close>\<close>
  "elapsed_operand r = (if truthy_str (elapsedTime r) then Str (the (elapsedTime r)) else Num 0)"

definition elapsed_sum :: "run list \<Rightarrow> jsval" where
  "elapsed_sum rs = foldl (\<lambda>sum r. js_plus sum (elapsed_operand r)) (Num 0) rs"

definition dashboard_of :: "(rat \<Rightarrow> string) \<Rightarrow> run list \<Rightarrow> dashboard" where
  \<comment> \<open>the four figures and the recent runs that \<^verbatim>\<open>updateDashboard\<close> shows\<close>
  "dashboard_of tf rs =
     (let total = length rs;
          successful = length (filter (\<lambda>r. status r = ''success'') rs);
          avgTime = (if total > 0 then toFixed1 tf (js_divide (elapsed_sum rs) total) else ''0'');
          totalFeatures = foldl (\<lambda>sum r. sum + or_num (featuresCount r) 0) 0 rs
      in \<lparr> total_runs = total,
           successful_runs = successful,
           avg_time = avgTime @ ''s'',
           total_features = totalFeatures,
           recent_runs = rev (drop (length rs - 5) rs) \<rparr>)"

definition updateDashboard :: "(rat \<Rightarrow> string) \<Rightarrow> app \<Rightarrow> app" where
  "updateDashboard tf s = s\<lparr>view := (view s)\<lparr>dashboard_view := dashboard_of tf (history_records s)\<rparr>\<rparr>"

definition save_history :: "app \<Rightarrow> app" where
  \<comment> \<open>\<^verbatim>\<open>localStorage.setItem('runHistory', JSON.stringify(runHistory))\<close>\<close>
  "save_history s = s\<lparr>stored_runHistory := history_records s\<rparr>"

section \<open>The streamed run: step events\<close>

text \<open>
  \<^verbatim>\<open>stepMapping\<close> and \<^verbatim>\<open>stepProgress\<close> are object literals, so \<^verbatim>\<open>stepMapping[step]\<close>
  finds an own property, or a member inherited from \<^verbatim>\<open>Object.prototype\<close> (a function or an
  object, which is truthy), or nothing.
\<close>

datatype 'a property = Own 'a | Inherited | Missing

definition object_prototype_names :: "string list" where
  "object_prototype_names =
     [''constructor'', ''hasOwnProperty'', ''isPrototypeOf'', ''propertyIsEnumerable'',
      ''toLocaleString'', ''toString'', ''valueOf'', ''__proto__'',
      ''__defineGetter__'', ''__defineSetter__'', ''__lookupGetter__'', ''__lookupSetter__'']"

definition get_property :: "(string \<times> 'a) list \<Rightarrow> string \<Rightarrow> 'a property" where
  "get_property obj k =
     (case map_of obj k of
        Some v \<Rightarrow> Own v
      | None \<Rightarrow> if k \<in> set object_prototype_names then Inherited else Missing)"

definition stepMapping :: "(string \<times> string) list" where
  "stepMapping =
     [(''enhance_idea'', ''step-enhance''),
      (''generate_prd'', ''step-prd''),
      (''create_repo'', ''step-github''),
      (''extract_features'', ''step-features''),
      (''implement'', ''step-implement''),
      (''publish'', ''step-publish'')]"

definition stepProgress :: "(string \<times> int) list" where
  "stepProgress =
     [(''enhance_idea'', 16),
      (''generate_prd'', 33),
      (''create_repo'', 50),
      (''extract_features'', 66),
      (''implement'', 83),
      (''publish'', 95),
      (''pipeline'', 100)]"

text \<open>
  A message of the stream: text that \<^verbatim>\<open>JSON.parse\<close> rejects (or the JSON \<^verbatim>\<open>null\<close>, whose
  \<^verbatim>\<open>step\<close> cannot be read), or a step event with its fields.
\<close>

record payload =
  prd_markdown :: "string option"
  epics_count :: "nat option"
  features_count :: "nat option"
  repo_name :: "string option"
  repo_url :: "string option"

record step_event =
  ev_step :: string
  ev_status :: string
  ev_detail :: "string option"
  ev_data :: "payload option"

datatype message = Malformed | Event step_event

definition data_field :: "(payload \<Rightarrow> 'a option) \<Rightarrow> step_event \<Rightarrow> 'a option" where
  \<comment> \<open>\<^verbatim>\<open>data.data?.field\<close>\<close>
  "data_field f ev = (case ev_data ev of None \<Rightarrow> None | Some d \<Rightarrow> f d)"

text \<open>
  A statement of the handler's \<^verbatim>\<open>try\<close> block completes or throws; what was written before a
  throw stays written.
\<close>

datatype outcome = Done app | Thrown app

definition and_then :: "outcome \<Rightarrow> (app \<Rightarrow> outcome) \<Rightarrow> outcome" where
  "and_then r f = (case r of Done s \<Rightarrow> f s | Thrown s \<Rightarrow> Thrown s)"

definition assign_run :: "(run \<Rightarrow> run) \<Rightarrow> app \<Rightarrow> outcome" where
  \<comment> \<open>\<^verbatim>\<open>currentRun.p = v\<close>: a TypeError when \<^verbatim>\<open>currentRun\<close> is \<^verbatim>\<open>null\<close>\<close>
  "assign_run f s =
     (case currentRun s of
        None \<Rightarrow> Thrown s
      | Some a \<Rightarrow> Done (s\<lparr>objs := (objs s)[a := f (objs s ! a)]\<rparr>))"

definition assign_if :: "bool \<Rightarrow> (run \<Rightarrow> run) \<Rightarrow> app \<Rightarrow> outcome" where
  "assign_if b f s = (if b then assign_run f s else Done s)"

definition step_call :: "string \<Rightarrow> string \<Rightarrow> string \<Rightarrow> app \<Rightarrow> outcome" where
  "step_call stepId st text s =
     (case updateStepStatus stepId st text (view s) of
        None \<Rightarrow> Thrown s
      | Some u \<Rightarrow> Done (s\<lparr>view := u\<rparr>))"

definition sse_update_step :: "step_event \<Rightarrow> app \<Rightarrow> outcome" where
  \<comment> \<open>"Update step UI". An inherited member is no element id: \<^verbatim>\<open>getElementById\<close> returns
      \<^verbatim>\<open>null\<close> for it and \<^verbatim>\<open>updateStepStatus\<close> throws.\<close>
  "sse_update_step ev s =
     (let detail = or_str (ev_detail ev) [] in
      case get_property stepMapping (ev_step ev) of
        Missing \<Rightarrow> Done s
      | Own stepId \<Rightarrow>
          if stepId = [] then Done s
          else if ev_status ev = ''in_progress'' then step_call stepId ''active'' detail s
          else if ev_status ev = ''completed''
            then step_call stepId ''completed'' (check_mark @ '' '' @ detail) s
          else if ev_status ev = ''failed''
            then step_call stepId ''error'' (cross_mark @ '' '' @ detail) s
          else Done s
      | Inherited \<Rightarrow>
          if ev_status ev = ''in_progress'' \<or> ev_status ev = ''completed'' \<or> ev_status ev = ''failed''
          then Thrown s
          else Done s)"

definition sse_update_progress :: "step_event \<Rightarrow> app \<Rightarrow> outcome" where
  \<comment> \<open>"Update progress bar". With an inherited member the width would be set to text that is
      no CSS length (\<^verbatim>\<open>NaN%\<close>, or the member's source text), which the style setter ignores.\<close>
  "sse_update_progress ev s =
     (case get_property stepProgress (ev_step ev) of
        Missing \<Rightarrow> Done s
      | Own p \<Rightarrow>
          if p = 0 then Done s
          else Done (s\<lparr>view := updateProgress (if ev_status ev = ''completed'' then p else max (p - 10) 0) (view s)\<rparr>)
      | Inherited \<Rightarrow> Done s)"

definition sse_status_text :: "step_event \<Rightarrow> app \<Rightarrow> outcome" where
  "sse_status_text ev s = Done (s\<lparr>view := (view s)\<lparr>current_status := Text (or_str (ev_detail ev) [])\<rparr>\<rparr>)"

definition sse_prd_preview :: "step_event \<Rightarrow> app \<Rightarrow> outcome" where
  \<comment> \<open>"Show PRD preview when available"\<close>
  "sse_prd_preview ev s =
     (if ev_step ev = ''generate_prd'' \<and> ev_status ev = ''completed''
         \<and> truthy_str (data_field prd_markdown ev)
      then Done (s\<lparr>view := (view s)\<lparr>prd_preview_section := True,
                     prd_preview_content := escapeHtml (the (data_field prd_markdown ev))\<rparr>\<rparr>)
      else Done s)"

definition sse_merge_data :: "step_event \<Rightarrow> app \<Rightarrow> outcome" where
  \<comment> \<open>"Update run data from events"\<close>
  "sse_merge_data ev s =
     and_then
       (and_then
          (assign_if (truthy_num (data_field epics_count ev))
             (\<lambda>r. r\<lparr>epicsCount := data_field epics_count ev\<rparr>) s)
          (assign_if (truthy_num (data_field features_count ev))
             (\<lambda>r. r\<lparr>featuresCount := data_field features_count ev\<rparr>)))
       (assign_if (truthy_str (data_field repo_name ev))
          (\<lambda>r. r\<lparr>repoUrl := data_field repo_url ev\<rparr>))"

definition close_stream :: "nat \<Rightarrow> app \<Rightarrow> app" where
  \<comment> \<open>\<^verbatim>\<open>eventSource.close()\<close> in a handler of the stream at \<open>k\<close>\<close>
  "close_stream k s =
     (if k < length (eventSources s)
      then s\<lparr>eventSources := (eventSources s)[k := (eventSources s ! k)\<lparr>closed := True\<rparr>]\<rparr>
      else s)"

definition push_current :: "app \<Rightarrow> app" where
  \<comment> \<open>\<^verbatim>\<open>runHistory.push(currentRun)\<close>: the array gets the reference\<close>
  "push_current s =
     (case currentRun s of
        None \<Rightarrow> s
      | Some a \<Rightarrow> s\<lparr>runHistory := runHistory s @ [a]\<rparr>)"

definition save_to_history :: "(rat \<Rightarrow> string) \<Rightarrow> app \<Rightarrow> app" where
  \<comment> \<open>"Save to history"\<close>
  "save_to_history tf s = updateDashboard tf (save_history (push_current s))"

definition sse_pipeline_completed :: "(rat \<Rightarrow> string) \<Rightarrow> int \<Rightarrow> string \<Rightarrow> int \<Rightarrow> app \<Rightarrow> outcome" where
  \<comment> \<open>the branch \<^verbatim>\<open>status === 'completed'\<close>; \<open>now\<close> is what \<^verbatim>\<open>Date.now()\<close> returns\<close>
  "sse_pipeline_completed tf now run_id start s =
     and_then
       (and_then
          (assign_run (\<lambda>r. r\<lparr>status := ''success''\<rparr>) s)
          (assign_run (\<lambda>r. r\<lparr>elapsedTime := Some (tf (of_int (now - start) / 1000))\<rparr>)))
       (\<lambda>s1. Done (s1\<lparr>net := net s1 @ [GET_run run_id]\<rparr>))"

definition sse_pipeline_failed :: "string \<Rightarrow> app \<Rightarrow> outcome" where
  \<comment> \<open>the \<^verbatim>\<open>else\<close> branch\<close>
  "sse_pipeline_failed detail s =
     and_then
       (and_then
          (assign_run (\<lambda>r. r\<lparr>status := ''failed''\<rparr>) s)
          (assign_run (\<lambda>r. r\<lparr>run_error := Some detail\<rparr>)))
       (\<lambda>s1. Done (s1\<lparr>view := (showToast ''error'' ''Pipeline Failed'' detail (view s1))
                       \<lparr>current_status := Span ''error'' (''Pipeline failed: '' @ escapeHtml detail)\<rparr>\<rparr>))"

definition sse_pipeline ::
  "(rat \<Rightarrow> string) \<Rightarrow> int \<Rightarrow> nat \<Rightarrow> string \<Rightarrow> int \<Rightarrow> step_event \<Rightarrow> app \<Rightarrow> outcome" where
  \<comment> \<open>"Pipeline finished"\<close>
  "sse_pipeline tf now k run_id start ev s =
     (if ev_step ev = ''pipeline''
      then and_then
             (if ev_status ev = ''completed''
              then sse_pipeline_completed tf now run_id start (close_stream k s)
              else sse_pipeline_failed (or_str (ev_detail ev) []) (close_stream k s))
             (\<lambda>s1. Done (save_to_history tf s1))
      else Done s)"

definition onmessage_try ::
  "(rat \<Rightarrow> string) \<Rightarrow> int \<Rightarrow> nat \<Rightarrow> string \<Rightarrow> int \<Rightarrow> message \<Rightarrow> app \<Rightarrow> outcome" where
  \<comment> \<open>the \<^verbatim>\<open>try\<close> block of \<^verbatim>\<open>eventSource.onmessage\<close>\<close>
  "onmessage_try tf now k run_id start msg s =
     (case msg of
        Malformed \<Rightarrow> Thrown s
      | Event ev \<Rightarrow>
          and_then (and_then (and_then (and_then (and_then
            (sse_update_step ev s)
            (sse_update_progress ev))
            (sse_status_text ev))
            (sse_prd_preview ev))
            (sse_merge_data ev))
            (sse_pipeline tf now k run_id start ev))"

definition onmessage ::
  "(rat \<Rightarrow> string) \<Rightarrow> int \<Rightarrow> nat \<Rightarrow> string \<Rightarrow> int \<Rightarrow> message \<Rightarrow> app \<Rightarrow> app" where
  \<comment> \<open>\<^verbatim>\<open>eventSource.onmessage\<close> of the stream at \<open>k\<close>, created for the run \<open>run_id\<close> by the
      call that started at \<open>start\<close>: the \<^verbatim>\<open>catch\<close> logs and returns\<close>
  "onmessage tf now k run_id start msg s =
     (case onmessage_try tf now k run_id start msg s of
        Done s1 \<Rightarrow> s1
      | Thrown s1 \<Rightarrow> s1\<lparr>console := console s1 @ [''SSE parse error:'']\<rparr>)"

definition deliver :: "(rat \<Rightarrow> string) \<Rightarrow> int \<Rightarrow> nat \<Rightarrow> message \<Rightarrow> app \<Rightarrow> app" where
  \<comment> \<open>a message of the stream at \<open>k\<close> reaches that stream's handler while the stream is
      open; a closed stream dispatches nothing\<close>
  "deliver tf now k msg s =
     (if k < length (eventSources s) \<and> \<not> closed (eventSources s ! k)
      then onmessage tf now k (stream_run_id (eventSources s ! k))
             (stream_startTime (eventSources s ! k)) msg s
      else s)"

fun process_events :: "(rat \<Rightarrow> string) \<Rightarrow> (int \<times> nat \<times> message) list \<Rightarrow> app \<Rightarrow> app" where
  \<comment> \<open>messages are handled one at a time, in the order they arrive, each at its own time
      and on its own stream\<close>
  "process_events tf [] s = s"
| "process_events tf ((now, k, msg) # rest) s = process_events tf rest (deliver tf now k msg s)"

section \<open>The streamed run: the end of the stream\<close>

text \<open>What a \<^verbatim>\<open>fetch\<close> promise settles to: it rejects, or it yields the decoded body.\<close>

datatype 'a reply = Failed | Reply 'a

record run_result =
  project_title :: "string option"
  result_repo_url :: "string option"
  result_epics_count :: "nat option"
  result_features_count :: "nat option"

record run_data =
  data_status :: "string option"
  data_result :: "run_result option"

definition or_opt_str :: "string option \<Rightarrow> string option \<Rightarrow> string option" where
  \<comment> \<open>\<^verbatim>\<open>a || b\<close>\<close>
  "or_opt_str a b = (if truthy_str a then a else b)"

definition or_opt_num :: "nat option \<Rightarrow> nat option \<Rightarrow> nat option" where
  "or_opt_num a b = (if truthy_num a then a else b)"

definition merge_result :: "run_result \<Rightarrow> run \<Rightarrow> run" where
  "merge_result res r =
     r\<lparr>projectTitle := or_opt_str (project_title res) (projectTitle r),
       repoUrl := or_opt_str (result_repo_url res) (repoUrl r),
       epicsCount := or_opt_num (result_epics_count res) (epicsCount r),
       featuresCount := or_opt_num (result_features_count res) (featuresCount r)\<rparr>"

definition set_run :: "(run \<Rightarrow> run) \<Rightarrow> app \<Rightarrow> app" where
  \<comment> \<open>an assignment to a property of \<^verbatim>\<open>currentRun\<close> where it refers to an object\<close>
  "set_run f s =
     (case currentRun s of
        None \<Rightarrow> s
      | Some a \<Rightarrow> s\<lparr>objs := (objs s)[a := f (objs s ! a)]\<rparr>)"

definition on_final_run_data :: "run_data reply \<Rightarrow> app \<Rightarrow> app" where
  \<comment> \<open>the callbacks of the "Fetch final run data" request. With \<^verbatim>\<open>currentRun\<close> \<^verbatim>\<open>null\<close> the
      callbacks throw, after \<^verbatim>\<open>showResults\<close> has shown the results section.\<close>
  "on_final_run_data rep s =
     (case currentRun s of
        None \<Rightarrow> s\<lparr>view := (view s)\<lparr>results_section := True\<rparr>\<rparr>
      | Some a \<Rightarrow>
          (case rep of
             Failed \<Rightarrow> s\<lparr>view := showResults (objs s ! a) (view s)\<rparr>
           | Reply rd \<Rightarrow>
               let s1 = (case data_result rd of None \<Rightarrow> s | Some res \<Rightarrow> set_run (merge_result res) s);
                   r = objs s1 ! a
               in s1\<lparr>view := showToast ''success'' ''Build Complete!''
                               (or_str (projectTitle r) ''Project'' @ '' created in ''
                                @ template (elapsedTime r) @ ''s'')
                               (showResults r (view s1))\<rparr>))"







section \<open>The steps of the simulated pipeline\<close>

text \<open>
  What the environment answers during one call of a start or continue function: the clock,
  the replies of the backend and the user's answer to the username prompt. \<open>toFixed\<close> is the
  rendering of a finite number by \<^verbatim>\<open>toFixed(1)\<close>, \<open>type_error_message\<close> the engine's message
  for a method call on \<^verbatim>\<open>undefined\<close>.
\<close>

datatype health_reply = Health_unreachable | Health_not_ok | Health_ok bool

record token_result =
  valid :: bool
  token_username :: "string option"
  token_message :: "string option"

record enhance_response =
  en_success :: bool
  en_enhanced_idea :: "enhanced_idea option"
  en_message :: "string option"

record prd_response =
  pr_success :: bool
  pr_prd :: "prd option"
  pr_prd_markdown :: "string option"
  pr_message :: "string option"

record repo_response =
  rr_url :: "string option"
  rr_full_name :: "string option"
  rr_name :: "string option"

record env =
  toFixed :: "rat \<Rightarrow> string"
  type_error_message :: string
  now_sse :: int
  stamp_sse :: string
  run_reply :: "string reply"
  health :: health_reply
  token_reply :: "token_result reply"
  prompt_answer :: "string option"
  now_start :: int
  stamp_start :: string
  enhance_reply :: "enhance_response reply"
  prd_reply :: "prd_response reply"
  repo_reply :: "repo_response reply"
  push_reply :: "unit reply"
  now_end :: int

definition set_step :: "string \<Rightarrow> string \<Rightarrow> string \<Rightarrow> app \<Rightarrow> app" where
  \<comment> \<open>\<^verbatim>\<open>updateStepStatus\<close> on one of the page's step elements\<close>
  "set_step stepId st text s =
     (case updateStepStatus stepId st text (view s) of None \<Rightarrow> s | Some u \<Rightarrow> s\<lparr>view := u\<rparr>)"

definition set_status_text :: "status_line \<Rightarrow> app \<Rightarrow> app" where
  "set_status_text l s = s\<lparr>view := (view s)\<lparr>current_status := l\<rparr>\<rparr>"

definition set_progress :: "int \<Rightarrow> app \<Rightarrow> app" where
  "set_progress n s = s\<lparr>view := updateProgress n (view s)\<rparr>"

definition toast :: "string \<Rightarrow> string \<Rightarrow> string \<Rightarrow> app \<Rightarrow> app" where
  "toast ty ttl message s = s\<lparr>view := showToast ty ttl message (view s)\<rparr>"

definition log_call :: "net_call \<Rightarrow> app \<Rightarrow> app" where
  "log_call c s = s\<lparr>net := net s @ [c]\<rparr>"

definition log_error :: "string \<Rightarrow> app \<Rightarrow> app" where
  \<comment> \<open>\<^verbatim>\<open>console.error\<close> and \<^verbatim>\<open>console.warn\<close>\<close>
  "log_error m s = s\<lparr>console := console s @ [m]\<rparr>"

definition alloc_run :: "run \<Rightarrow> app \<Rightarrow> app" where
  \<comment> \<open>\<^verbatim>\<open>currentRun = { ... }\<close>: a new object\<close>
  "alloc_run r s = s\<lparr>objs := objs s @ [r], currentRun := Some (length (objs s))\<rparr>"

definition fallback_idea_step :: "string \<Rightarrow> string \<Rightarrow> string \<Rightarrow> app \<Rightarrow> enhanced_idea \<times> app" where
  "fallback_idea_step mark appIdea techPrefs s =
     (buildFallbackEnhancedIdea appIdea techPrefs,
      set_step ''step-enhance'' ''completed'' (mark @ '' Enhanced (simulated)'') s)"

definition step_enhance :: "env \<Rightarrow> bool \<Rightarrow> string \<Rightarrow> string \<Rightarrow> app \<Rightarrow> enhanced_idea \<times> app" where
  \<comment> \<open>"Step 1: Enhance idea with AI"\<close>
  "step_enhance e api appIdea techPrefs s =
     (let s1 = set_status_text (Text ''AI is enhancing your application idea...'')
                 (set_step ''step-enhance'' ''active'' ''Enhancing idea...'' s);
          (idea, s2) =
            (if api \<and> truthy_str (geminiKey (settings s1))
             then let s1a = log_call (POST_enhance_idea (geminiKey (settings s1)) appIdea
                                        (if techPrefs = [] then None else Some techPrefs)) s1
                  in case enhance_reply e of
                       Reply r \<Rightarrow>
                         (case (if en_success r then en_enhanced_idea r else None) of
                            Some idea \<Rightarrow>
                              (idea, set_step ''step-enhance'' ''completed''
                                       (check_mark @ '' Enhanced: '' @ template (title idea)) s1a)
                          | None \<Rightarrow>
                              fallback_idea_step warn_mark appIdea techPrefs
                                (toast ''warning'' ''Enhancement Simulated''
                                   (or_str (en_message r) ''Using local enhancement'') s1a))
                     | Failed \<Rightarrow>
                         fallback_idea_step warn_mark appIdea techPrefs
                           (log_error ''Enhance idea error:'' s1a)
             else fallback_idea_step check_mark appIdea techPrefs s1)
      in (idea,
          set_progress 16
            (set_run (\<lambda>r. r\<lparr>projectTitle := title idea, description := idea_description idea,
                              enhancedIdea := Some idea\<rparr>) s2)))"

definition fallback_prd_step :: "string \<Rightarrow> enhanced_idea \<Rightarrow> app \<Rightarrow> prd_result \<times> app" where
  "fallback_prd_step mark idea s =
     (buildFallbackPRD idea,
      set_step ''step-prd'' ''completed'' (mark @ '' PRD generated (simulated)'') s)"

definition step_prd :: "env \<Rightarrow> bool \<Rightarrow> enhanced_idea \<Rightarrow> app \<Rightarrow> prd_result \<times> app" where
  \<comment> \<open>"Step 2: Generate PRD with epics and user stories"\<close>
  "step_prd e api idea s =
     (let s1 = set_status_text
                 (Text ''Gemini AI is generating the PRD with epics and user stories...'')
                 (set_step ''step-prd'' ''active'' ''Generating PRD...'' s);
          (prdResult, s2) =
            (if api \<and> truthy_str (geminiKey (settings s1))
             then let s1a = log_call (POST_generate_prd (geminiKey (settings s1)) idea) s1
                  in case prd_reply e of
                       Reply r \<Rightarrow>
                         (case (if pr_success r then pr_prd r else None) of
                            Some p \<Rightarrow>
                              (\<lparr>res_prd = p, res_prd_markdown = pr_prd_markdown r\<rparr>,
                               set_step ''step-prd'' ''completed''
                                 (check_mark @ '' PRD: '' @ show_nat (length (or_list (epics p)))
                                  @ '' epics, '' @ show_nat (countFeatures p) @ '' features'') s1a)
                          | None \<Rightarrow>
                              fallback_prd_step warn_mark idea
                                (toast ''warning'' ''PRD Simulated''
                                   (or_str (pr_message r) ''Using local PRD'') s1a))
                     | Failed \<Rightarrow>
                         fallback_prd_step warn_mark idea (log_error ''Generate PRD error:'' s1a)
             else fallback_prd_step check_mark idea s1)
      in (prdResult,
          set_progress 33
            (set_run (\<lambda>r. r\<lparr>run_prd := Some (res_prd prdResult),
                              prdMarkdown := res_prd_markdown prdResult,
                              epicsCount := Some (length (or_list (epics (res_prd prdResult)))),
                              featuresCount := Some (countFeatures (res_prd prdResult))\<rparr>) s2)))"

definition simulated_url :: "app \<Rightarrow> string \<Rightarrow> string" where
  \<comment> \<open>\<^verbatim>\<open>`https://github.com/${settings.githubUsername}/${repoName}`\<close>\<close>
  "simulated_url s repoName =
     ''https://github.com/'' @ template (githubUsername (settings s)) @ ''/'' @ repoName"

definition step_github :: "env \<Rightarrow> bool \<Rightarrow> enhanced_idea \<Rightarrow> app \<Rightarrow> outcome" where
  \<comment> \<open>"Step 3: Create GitHub repo". \<^verbatim>\<open>enhancedIdea.title.toLowerCase()\<close> throws when the
      idea has no title.\<close>
  "step_github e api idea s =
     (let s1 = set_status_text (Text ''Creating GitHub repository...'')
                 (set_step ''step-github'' ''active'' ''Creating repository...'' s)
      in case title idea of
           None \<Rightarrow> Thrown s1
         | Some t \<Rightarrow>
             let repoName = repoName_of t;
                 s2 =
                   (if api \<and> truthy_str (githubToken (settings s1))
                    then let s1a = log_call (POST_create_repo (githubToken (settings s1)) repoName
                                               (take 200 (or_str (idea_description idea) []))
                                               (privateRepos (settings s1) \<noteq> Some False)) s1
                         in case repo_reply e of
                              Reply r \<Rightarrow>
                                set_step ''step-github'' ''completed''
                                  (check_mark @ '' Repository: '' @ template (rr_name r))
                                  (set_run (\<lambda>x. x\<lparr>repoUrl := rr_url r,
                                                    repoFullName := rr_full_name r,
                                                    repoCreated := Some True\<rparr>) s1a)
                            | Failed \<Rightarrow>
                                set_step ''step-github'' ''completed''
                                  (warn_mark @ '' Repository simulated'')
                                  (set_run (\<lambda>x. x\<lparr>repoUrl := Some (simulated_url s1a repoName),
                                                    repoCreated := Some False\<rparr>)
                                     (log_error ''GitHub API error:'' s1a))
                    else set_step ''step-github'' ''completed''
                           (check_mark @ '' Repository simulated'')
                           (set_run (\<lambda>x. x\<lparr>repoUrl := Some (simulated_url s1 repoName),
                                             repoCreated := Some False\<rparr>) s1))
             in Done (set_progress 50 s2))"

definition run_field :: "(run \<Rightarrow> 'a option) \<Rightarrow> app \<Rightarrow> 'a option" where
  \<comment> \<open>reading a property of \<^verbatim>\<open>currentRun\<close>\<close>
  "run_field f s = (case the_run s of None \<Rightarrow> None | Some r \<Rightarrow> f r)"

definition template_num :: "nat option \<Rightarrow> string" where
  "template_num x = (case x of None \<Rightarrow> ''undefined'' | Some n \<Rightarrow> show_nat n)"

definition step_implement :: "app \<Rightarrow> app" where
  \<comment> \<open>"Step 5: Implementation"\<close>
  "step_implement s =
     set_progress 83
       (set_step ''step-implement'' ''completed''
          (check_mark @ '' '' @ template_num (run_field featuresCount s) @ '' features implemented'')
          (set_status_text (Text ''Claude Code is implementing features from the PRD...'')
             (set_step ''step-implement'' ''active'' ''Implementing...'' s)))"

definition step_publish :: "env \<Rightarrow> enhanced_idea \<Rightarrow> app \<Rightarrow> app" where
  \<comment> \<open>"Step 6: Publish"; a failing push is logged and ignored\<close>
  "step_publish e idea s =
     (let s1 = set_status_text (Text ''Publishing to GitHub...'')
                 (set_step ''step-publish'' ''active'' ''Publishing...'' s);
          s2 =
            (if run_field repoCreated s1 = Some True \<and> truthy_str (run_field repoFullName s1)
             then let s1a = log_call
                              (POST_push_files (githubToken (settings s1))
                                 (the (run_field repoFullName s1))
                                 \<lparr> file_prd_md = or_str (run_field prdMarkdown s1)
                                                    (''# PRD'' @ [CHR 0x0A, CHR 0x0A] @ ''Generated PRD''),
                                   file_title = title idea,
                                   file_description = idea_description idea,
                                   file_tech_stack = suggested_tech_stack idea,
                                   file_epics_count = run_field epicsCount s1,
                                   file_features_count = run_field featuresCount s1 \<rparr>) s1
                  in case push_reply e of
                       Reply _ \<Rightarrow> s1a
                     | Failed \<Rightarrow> log_error ''Push files error:'' s1a
             else s1)
      in set_progress 100 (set_step ''step-publish'' ''completed'' (check_mark @ '' Published'') s2))"

definition elapsed_text :: "env \<Rightarrow> int option \<Rightarrow> string" where
  \<comment> \<open>\<^verbatim>\<open>((Date.now() - startTime) / 1000).toFixed(1)\<close>; a missing start time gives \<^verbatim>\<open>NaN\<close>\<close>
  "elapsed_text e start =
     (case start of
        None \<Rightarrow> toFixed1 (toFixed e) NaN
      | Some t0 \<Rightarrow> toFixed1 (toFixed e) (Fin (of_int (now_end e - t0) / 1000)))"

definition complete_run :: "env \<Rightarrow> int option \<Rightarrow> app \<Rightarrow> app" where
  \<comment> \<open>"Complete": the run that started at \<open>start\<close> succeeds\<close>
  "complete_run e start s =
     (let s1 = set_run (\<lambda>r. r\<lparr>elapsedTime := Some (elapsed_text e start)\<rparr>)
                 (set_run (\<lambda>r. r\<lparr>status := ''success''\<rparr>) s);
          s2 = toast ''success'' ''Build Complete!''
                 (template (run_field projectTitle s1) @ '' created in ''
                  @ template (run_field elapsedTime s1) @ ''s'') s1
      in case the_run s2 of
           None \<Rightarrow> s2
         | Some r \<Rightarrow> s2\<lparr>view := showResults r (view s2)\<rparr>)"

definition cross_emoji :: string where
  "cross_emoji = [CHR 0xE2, CHR 0x9D, CHR 0x8C]"

definition fail_run :: "string \<Rightarrow> app \<Rightarrow> app" where
  \<comment> \<open>the outer \<^verbatim>\<open>catch\<close>: the run fails with the message of the error\<close>
  "fail_run m s =
     set_status_text (Span ''error'' (cross_emoji @ '' Error: '' @ m))
       (toast ''error'' ''Run Failed'' m
          (set_run (\<lambda>r. r\<lparr>run_error := Some m\<rparr>)
             (set_run (\<lambda>r. r\<lparr>status := ''failed''\<rparr>) s)))"

section \<open>Starting a run\<close>

definition is_alnum :: "char \<Rightarrow> bool" where
  "is_alnum c = (in_range CHR ''a'' CHR ''z'' c \<or> in_range CHR ''A'' CHR ''Z'' c \<or> in_range CHR ''0'' CHR ''9'' c)"

fun has_double_dash :: "string \<Rightarrow> bool" where
  \<comment> \<open>\<^verbatim>\<open>username.includes('--')\<close>\<close>
  "has_double_dash (a # b # cs) = ((a = CHR ''-'' \<and> b = CHR ''-'') \<or> has_double_dash (b # cs))"
| "has_double_dash _ = False"

definition isValidGitHubUsername :: "string option \<Rightarrow> bool" where
  \<comment> \<open>the pattern \<^verbatim>\<open>^[a-zA-Z0-9](?:[a-zA-Z0-9-]{0,37}[a-zA-Z0-9])?$\<close> and no double dash\<close>
  "isValidGitHubUsername username =
     (case username of
        None \<Rightarrow> False
      | Some u \<Rightarrow>
          u \<noteq> [] \<and> length u \<le> 39 \<and> is_alnum (hd u) \<and> is_alnum (last u)
          \<and> list_all (\<lambda>c. is_alnum c \<or> c = CHR ''-'') u \<and> \<not> has_double_dash u)"

definition checkApiServer :: "env \<Rightarrow> bool \<times> bool" where
  \<comment> \<open>\<^verbatim>\<open>{ running, gemini }\<close>\<close>
  "checkApiServer e = (case health e of Health_ok g \<Rightarrow> (True, g) | _ \<Rightarrow> (False, False))"

definition validateGitHubToken :: "env \<Rightarrow> token_result" where
  "validateGitHubToken e =
     (case token_reply e of
        Reply r \<Rightarrow> r
      | Failed \<Rightarrow> \<lparr> valid = False, token_username = None,
                     token_message = Some ''API server not running'' \<rparr>)"

definition save_settings :: "app \<Rightarrow> app" where
  \<comment> \<open>\<^verbatim>\<open>localStorage.setItem('settings', JSON.stringify(settings))\<close>\<close>
  "save_settings s = s\<lparr>stored_settings := settings s\<rparr>"

definition set_username :: "string option \<Rightarrow> app \<Rightarrow> app" where
  "set_username u s = save_settings (s\<lparr>settings := (settings s)\<lparr>githubUsername := u\<rparr>\<rparr>)"

text \<open>
  The checks that \<^verbatim>\<open>startRunLegacy\<close> and the review-gate \<^verbatim>\<open>startRun\<close> make before a run
  exists: they return early (\<open>Rejected\<close>) or go on with the server's availability and the
  trimmed inputs (\<open>Ready\<close>).
\<close>

datatype preflight = Rejected app | Ready bool string string app

definition check_token :: "env \<Rightarrow> bool \<Rightarrow> app \<Rightarrow> app" where
  \<comment> \<open>"Validate GitHub token"\<close>
  "check_token e api s =
     (if api \<and> truthy_str (githubToken (settings s))
      then let s1 = log_call (POST_validate_token (githubToken (settings s))) s;
               tokenResult = validateGitHubToken e
           in if valid tokenResult \<and> truthy_str (token_username tokenResult)
              then toast ''success'' ''GitHub Connected''
                     (''Authenticated as '' @ template (token_username tokenResult))
                     (set_username (token_username tokenResult) s1)
              else s1
      else s)"

definition check_username :: "env \<Rightarrow> bool \<Rightarrow> string \<Rightarrow> string \<Rightarrow> app \<Rightarrow> preflight" where
  \<comment> \<open>"Validate GitHub username"\<close>
  "check_username e api appIdea techPrefs s =
     (if \<not> isValidGitHubUsername (githubUsername (settings s))
      then if \<not> truthy_str (prompt_answer e) \<or> \<not> isValidGitHubUsername (prompt_answer e)
           then Rejected (toast ''error'' ''Invalid Username'' ''A valid GitHub username is required.'' s)
           else Ready api appIdea techPrefs (set_username (prompt_answer e) s)
      else Ready api appIdea techPrefs s)"

definition run_preflight :: "env \<Rightarrow> app \<Rightarrow> preflight" where
  "run_preflight e s =
     (let appIdea = js_trim (idea_input (view s));
          techPrefs = js_trim (tech_preferences (view s))
      in if appIdea = []
         then Rejected (toast ''warning'' ''Missing Input'' ''Please describe your application idea'' s)
         else let s1 = log_call GET_health s;
                  api = fst (checkApiServer e);
                  s2 = (if \<not> api
                        then toast ''warning'' ''API Server Offline''
                               ''Running in simulation mode. Start server with: python start.py'' s1
                        else s1)
              in check_username e api appIdea techPrefs (check_token e api s2))"

definition show_progress_only :: "app \<Rightarrow> app" where
  \<comment> \<open>"Show progress": the progress section is shown, the other sections are hidden\<close>
  "show_progress_only s =
     s\<lparr>view := (view s)\<lparr>progress_section := True, results_section := False,
                        prd_preview_section := False\<rparr>\<rparr>"

definition show_prd_preview :: "prd_result \<Rightarrow> app \<Rightarrow> app" where
  \<comment> \<open>"Show PRD preview"\<close>
  "show_prd_preview prdResult s =
     (if truthy_str (res_prd_markdown prdResult)
      then s\<lparr>view := (view s)\<lparr>prd_preview_section := True,
                  prd_preview_content := escapeHtml (the (res_prd_markdown prdResult))\<rparr>\<rparr>
      else s)"

definition step_features_legacy :: "app \<Rightarrow> app" where
  \<comment> \<open>"Step 4: Break down features" of \<^verbatim>\<open>startRunLegacy\<close>\<close>
  "step_features_legacy s =
     set_progress 66
       (set_step ''step-features'' ''completed''
          (check_mark @ '' '' @ template_num (run_field featuresCount s) @ '' features across ''
           @ template_num (run_field epicsCount s) @ '' epics'')
          (set_status_text (Text ''Extracting implementation features from PRD...'')
             (set_step ''step-features'' ''active'' ''Breaking down features...'' s)))"

definition finish_steps :: "env \<Rightarrow> int option \<Rightarrow> enhanced_idea \<Rightarrow> (app \<Rightarrow> app) \<Rightarrow> bool \<Rightarrow> app \<Rightarrow> app" where
  \<comment> \<open>steps 3 to 6 inside their \<^verbatim>\<open>try\<close>, with the outer \<^verbatim>\<open>catch\<close>\<close>
  "finish_steps e start idea step_features api s =
     (case step_github e api idea s of
        Thrown s1 \<Rightarrow> fail_run (type_error_message e) s1
      | Done s1 \<Rightarrow> complete_run e start (step_publish e idea (step_implement (step_features s1))))"

definition startRunLegacy :: "env \<Rightarrow> app \<Rightarrow> app" where
  "startRunLegacy e s =
     (case run_preflight e s of
        Rejected s1 \<Rightarrow> s1
      | Ready api appIdea techPrefs s1 \<Rightarrow>
          let s2 = alloc_run (new_run (now_start e) (stamp_start e) None None) (show_progress_only s1);
              (idea, s3) = step_enhance e api appIdea techPrefs s2;
              (prdResult, s4) = step_prd e api idea s3;
              s5 = show_prd_preview prdResult s4
          in save_to_history (toFixed e)
               (finish_steps e (Some (now_start e)) idea step_features_legacy api s5))"

definition startRunWithSSE :: "env \<Rightarrow> app \<Rightarrow> app" where
  "startRunWithSSE e s =
     (let appIdea = js_trim (idea_input (view s));
          techPrefs = js_trim (tech_preferences (view s))
      in if appIdea = []
         then toast ''warning'' ''Missing Input'' ''Please describe your application idea'' s
         else if length appIdea < 20
         then toast ''warning'' ''Too Short''
                ''Please provide a more detailed description (at least 20 characters)'' s
         else
           let s1 = alloc_run (new_run (now_sse e) (stamp_sse e) None None) (show_progress_only s);
               s2 = log_call
                      (POST_run
                         \<lparr> rq_authorization = authToken s1,
                           rq_gemini_key = or_str (geminiKey (settings s1)) [],
                           rq_github_token = or_str (githubToken (settings s1)) [],
                           rq_github_username = or_str (githubUsername (settings s1)) [],
                           rq_app_idea = appIdea,
                           rq_tech_preferences = (if techPrefs = [] then None else Some techPrefs),
                           rq_private = (privateRepos (settings s1) \<noteq> Some False) \<rparr>) s1
           in case run_reply e of
                Reply run_id \<Rightarrow>
                  (log_call (GET_stream run_id)
                     (set_status_text
                        (Text (''Pipeline started '' @ em_dash @ '' streaming progress...''))
                        (set_run (\<lambda>r. r\<lparr>run_ident := Server_id run_id\<rparr>) s2)))
                  \<lparr>eventSources := eventSources s @ [\<lparr> stream_run_id = run_id,
                                                        stream_startTime = now_sse e,
                                                        closed = False \<rparr>]\<rparr>
              | Failed \<Rightarrow>
                  startRunLegacy e
                    (log_error ''SSE pipeline failed, falling back to step-by-step mode:'' s2))"

definition startRun :: "env \<Rightarrow> app \<Rightarrow> app" where
  \<comment> \<open>"main entry point -- delegates to SSE pipeline"\<close>
  "startRun e s = startRunWithSSE e s"

section \<open>The review gate\<close>

fun checklist_feats :: "nat \<times> (nat \<times> bool) list \<Rightarrow> feature list \<Rightarrow> nat \<times> (nat \<times> bool) list" where
  \<comment> \<open>one checked box per feature, numbered by the running \<^verbatim>\<open>featureIndex\<close>\<close>
  "checklist_feats (featureIndex, boxes) [] = (featureIndex, boxes)"
| "checklist_feats (featureIndex, boxes) (feat # rest) =
     checklist_feats (featureIndex + 1, boxes @ [(featureIndex, True)]) rest"

fun checklist_stories :: "nat \<times> (nat \<times> bool) list \<Rightarrow> user_story list \<Rightarrow> nat \<times> (nat \<times> bool) list" where
  "checklist_stories st [] = st"
| "checklist_stories st (story # rest) =
     checklist_stories (checklist_feats st (or_list (features story))) rest"

fun checklist_epics :: "nat \<times> (nat \<times> bool) list \<Rightarrow> epic list \<Rightarrow> nat \<times> (nat \<times> bool) list" where
  "checklist_epics st [] = st"
| "checklist_epics st (e # rest) =
     checklist_epics (checklist_stories st (or_list (user_stories e))) rest"

definition renderReviewSection :: "enhanced_idea \<Rightarrow> prd_result \<Rightarrow> ui \<Rightarrow> ui" where
  \<comment> \<open>the summary, the PRD preview and the "Feature checklist with checkboxes"\<close>
  "renderReviewSection idea prdResult u =
     (let u1 = u\<lparr>enhanced_idea_summary := Some idea\<rparr>;
          u2 = (if truthy_str (res_prd_markdown prdResult)
                then u1\<lparr>prd_preview_content := escapeHtml (the (res_prd_markdown prdResult))\<rparr>
                else u1)
      in u2\<lparr>feature_checklist := snd (checklist_epics (0, []) (or_list (epics (res_prd prdResult))))\<rparr>)"

definition getSelectedFeatureIndices :: "ui \<Rightarrow> nat list" where
  \<comment> \<open>the \<^verbatim>\<open>featureIndex\<close> of every checked box, in page order\<close>
  "getSelectedFeatureIndices u = map fst (filter snd (feature_checklist u))"

definition select_features :: "nat list \<Rightarrow> 'a list \<Rightarrow> 'a list" where
  \<comment> \<open>\<^verbatim>\<open>allFeatures.filter((_, i) => selectedIndices.includes(i))\<close>\<close>
  "select_features selectedIndices allFeatures =
     map snd (filter (\<lambda>(i, f). i \<in> set selectedIndices) (enumerate 0 allFeatures))"

definition pause_mark :: string where
  "pause_mark = [CHR 0xE2, CHR 0x8F, CHR 0xB8]"

definition startRun_review :: "env \<Rightarrow> app \<Rightarrow> app" where
  \<comment> \<open>\<^verbatim>\<open>startRun\<close> of the review-gate version: "Phase 1: Enhance + PRD, then pause for
      review". No statement of its \<^verbatim>\<open>try\<close> block throws on the data modelled here, so its
      \<^verbatim>\<open>catch\<close> is not entered.\<close>
  "startRun_review e s =
     (case run_preflight e s of
        Rejected s1 \<Rightarrow> s1
      | Ready api appIdea techPrefs s1 \<Rightarrow>
          let s2 = alloc_run (new_run (now_start e) (stamp_start e) (Some (now_start e)) (Some api))
                     (s1\<lparr>view := (view s1)\<lparr>progress_section := True, results_section := False,
                                           prd_review_section := False\<rparr>\<rparr>);
              (idea, s3) = step_enhance e api appIdea techPrefs s2;
              (prdResult, s4) = step_prd e api idea s3;
              s5 = set_status_text
                     (Span ''warning'' (pause_mark @ '' Review the PRD below, then click Continue to Build'')) s4;
              s6 = s5\<lparr>view := renderReviewSection idea prdResult ((view s5)\<lparr>prd_review_section := True\<rparr>)\<rparr>
          in toast ''info'' ''Review Required''
               ''Review the enhanced idea and PRD before continuing.'' s6)"

definition step_features_review :: "app \<Rightarrow> app" where
  \<comment> \<open>"Step 4: Break down features (already done during review)"\<close>
  "step_features_review s =
     set_progress 66
       (set_step ''step-features'' ''completed''
          (check_mark @ '' '' @ template_num (run_field featuresCount s) @ '' features selected'')
          (set_status_text
             (Text (''Building '' @ template_num (run_field featuresCount s)
                    @ '' selected features across '' @ template_num (run_field epicsCount s)
                    @ '' epics...''))
             (set_step ''step-features'' ''active'' ''Breaking down features...'' s)))"

definition continueAfterReview :: "env \<Rightarrow> app \<Rightarrow> app" where
  \<comment> \<open>"Phase 2: GitHub, implement, publish"\<close>
  "continueAfterReview e s =
     (case the_run s of
        None \<Rightarrow> toast ''error'' ''No Run'' ''No active run to continue.'' s
      | Some r \<Rightarrow>
          (case (enhancedIdea r, run_prd r) of
             (Some idea, Some p) \<Rightarrow>
               let selectedIndices = getSelectedFeatureIndices (view s);
                   allFeatures = flattenFeatures p;
                   selectedFeatures = select_features selectedIndices allFeatures;
                   s1 = set_run (\<lambda>x. x\<lparr>featuresCount := Some (length selectedFeatures),
                                       selectedFeatures := Some selectedFeatures\<rparr>) s;
                   s2 = set_status_text (Text ''Continuing build...'')
                          (s1\<lparr>view := (view s1)\<lparr>prd_review_section := False\<rparr>\<rparr>)
               in save_to_history (toFixed e)
                    (finish_steps e (startTime r) idea step_features_review
                       (apiRunning r = Some True) s2)
           | _ \<Rightarrow> toast ''error'' ''No Run'' ''No active run to continue.'' s))"



section \<open>Observations and sample inputs\<close>

text \<open>
  What the proofs observe of a state: the state an outcome carries, the part of the state
  that concerns the run and its history, and the part of the page that shows the steps and
  the progress bar.
\<close>

definition state_of :: "outcome \<Rightarrow> app" where
  "state_of r = (case r of Done s \<Rightarrow> s | Thrown s \<Rightarrow> s)"

definition run_frame ::
  "app \<Rightarrow> nat option \<times> nat list \<times> stream list \<times> net_call list \<times> run list
        \<times> string list \<times> string option list \<times> string option list \<times> nat" where
  "run_frame s =
     (currentRun s, runHistory s, eventSources s, net s, stored_runHistory s,
      map status (objs s), map elapsedTime (objs s), map run_error (objs s), length (objs s))"

definition gauge :: "app \<Rightarrow> (string \<Rightarrow> string \<times> string) \<times> int" where
  "gauge s = (step_view (view s), overall_progress (view s))"

definition ctl ::
  "app \<Rightarrow> nat option \<times> nat list \<times> nat \<times> stream list \<times> run list \<times> settings" where
  \<comment> \<open>the globals apart from the run objects' contents, the page and the logs\<close>
  "ctl s = (currentRun s, runHistory s, length (objs s), eventSources s, stored_runHistory s,
            settings s)"

definition kept_of ::
  "run \<Rightarrow> string \<times> string option \<times> string option \<times> nat option \<times> feature_ref list option
        \<times> int option \<times> bool option \<times> enhanced_idea option \<times> prd option \<times> nat option" where
  \<comment> \<open>the properties of a run object that creating the repository does not assign\<close>
  "kept_of r = (status r, elapsedTime r, run_error r, featuresCount r, selectedFeatures r,
                startTime r, apiRunning r, enhancedIdea r, run_prd r, epicsCount r)"

definition is_create_repo :: "net_call \<Rightarrow> bool" where
  "is_create_repo c = (case c of POST_create_repo tok nm descr priv \<Rightarrow> True | _ \<Rightarrow> False)"

definition create_repo_calls :: "app \<Rightarrow> net_call list" where
  \<comment> \<open>the \<^verbatim>\<open>POST /api/create-repo\<close> requests issued so far\<close>
  "create_repo_calls s = filter is_create_repo (net s)"

definition quiet ::
  "app \<Rightarrow> nat option \<times> nat list \<times> run list \<times> stream list \<times> run list \<times> net_call list" where
  \<comment> \<open>what the checks before a run and the first two steps leave as it is\<close>
  "quiet s = (currentRun s, runHistory s, objs s, eventSources s, stored_runHistory s, create_repo_calls s)"

definition only_open :: "nat \<Rightarrow> app \<Rightarrow> bool" where
  \<comment> \<open>the stream at \<open>k\<close> is open and every other stream is closed\<close>
  "only_open k s =
     (k < length (eventSources s) \<and> \<not> closed (eventSources s ! k)
      \<and> list_all closed (take k (eventSources s))
      \<and> list_all closed (drop (Suc k) (eventSources s)))"




definition preflight_app :: "preflight \<Rightarrow> app" where
  "preflight_app p = (case p of Rejected s \<Rightarrow> s | Ready api appIdea techPrefs s \<Rightarrow> s)"

text \<open>The page as it is loaded, with nothing stored, and a state with one streamed run.\<close>

definition initial_page :: ui where
  "initial_page =
     \<lparr> idea_input = [], tech_preferences = [],
       step_view = (\<lambda>i. (''pending'', ''Pending'')),
       overall_progress = 0,
       current_status = Text ''Ready to start...'',
       progress_section = False, results_section = False, prd_preview_section = False,
       prd_review_section = False, prd_preview_content = [],
       results_content = None, enhanced_idea_summary = None, feature_checklist = [],
       toasts = [],
       dashboard_view = \<lparr> total_runs = 0, successful_runs = 0, avg_time = ''0s'',
                          total_features = 0, recent_runs = [] \<rparr> \<rparr>"

definition default_settings :: settings where
  \<comment> \<open>the script sets the username when none is configured\<close>
  "default_settings =
     \<lparr> geminiKey = None, githubToken = None, githubUsername = Some ''jacattac314'',
       anthropicKey = None, privateRepos = None \<rparr>"

definition initial_app :: app where
  "initial_app =
     \<lparr> objs = [], currentRun = None, runHistory = [], settings = default_settings,
       authToken = None, stored_runHistory = [], stored_settings = default_settings,
       view = initial_page, net = [], console = [], eventSources = [] \<rparr>"

definition streaming_app :: app where
  \<comment> \<open>run \<^verbatim>\<open>r1\<close>, started at time 0, with its stream open\<close>
  "streaming_app =
     initial_app
       \<lparr> objs := [(new_run 0 ''1/1/2026'' None None)\<lparr>run_ident := Server_id ''r1''\<rparr>],
         currentRun := Some 0,
         eventSources := [\<lparr> stream_run_id = ''r1'', stream_startTime = 0, closed = False \<rparr>] \<rparr>"

definition offline_env :: env where
  \<comment> \<open>nothing answers: every request fails, the clock runs from 1000 to 10500\<close>
  "offline_env =
     \<lparr> toFixed = (\<lambda>q. ''9.5''), type_error_message = ''TypeError'',
       now_sse = 0, stamp_sse = ''1/1/2026'', run_reply = Failed,
       health = Health_unreachable, token_reply = Failed, prompt_answer = None,
       now_start = 1000, stamp_start = ''1/1/2026'',
       enhance_reply = Failed, prd_reply = Failed, repo_reply = Failed, push_reply = Failed,
       now_end = 10500 \<rparr>"

definition typed_app :: "string \<Rightarrow> app" where
  \<comment> \<open>the loaded page with an idea typed in\<close>
  "typed_app idea = initial_app\<lparr>view := initial_page\<lparr>idea_input := idea\<rparr>\<rparr>"

definition sample_idea :: enhanced_idea where
  "sample_idea = buildFallbackEnhancedIdea ''A todo list for small teams'' []"

definition review_app :: app where
  \<comment> \<open>an offline run of the review-gate version at its pause, with the boxes of the features
      1 and 3 unticked\<close>
  "review_app =
     initial_app
       \<lparr> objs := [(new_run 1000 ''1/1/2026'' (Some 1000) (Some False))
                    \<lparr> projectTitle := title sample_idea,
                      description := idea_description sample_idea,
                      enhancedIdea := Some sample_idea,
                      run_prd := Some (res_prd (buildFallbackPRD sample_idea)),
                      prdMarkdown := res_prd_markdown (buildFallbackPRD sample_idea),
                      epicsCount := Some 4, featuresCount := Some 5 \<rparr>],
         currentRun := Some 0,
         view := initial_page
                   \<lparr> progress_section := True, prd_review_section := True,
                     feature_checklist := [(0, True), (1, False), (2, True), (3, False), (4, True)] \<rparr> \<rparr>"

definition finished_run :: "string \<Rightarrow> run" where
  \<comment> \<open>a successful run of five features as the history holds it, with its elapsed time\<close>
  "finished_run t =
     (new_run 0 ''1/1/2026'' None None)
       \<lparr>status := ''success'', featuresCount := Some 5, elapsedTime := Some t\<rparr>"

definition prd_event :: step_event where
  \<comment> \<open>the PRD step completes and carries the PRD\<close>
  "prd_event =
     \<lparr> ev_step = ''generate_prd'', ev_status = ''completed'', ev_detail = Some ''PRD generated'',
       ev_data = Some \<lparr> prd_markdown = Some ''# PRD'', epics_count = Some 4,
                        features_count = Some 5, repo_name = None, repo_url = None \<rparr> \<rparr>"

definition online_env :: env where
  \<comment> \<open>the backend answers and creates the repository\<close>
  "online_env =
     offline_env
       \<lparr> health := Health_ok True,
         repo_reply := Reply \<lparr> rr_url = Some ''https://github.com/jacattac314/todo'',
                                rr_full_name = Some ''jacattac314/todo'',
                                rr_name = Some ''todo'' \<rparr> \<rparr>"

definition online_review_app :: app where
  \<comment> \<open>a run of the review-gate version at its pause, started with the backend running and a
      GitHub token configured\<close>
  "online_review_app =
     review_app
       \<lparr> objs := [(objs review_app ! 0)\<lparr>apiRunning := Some True\<rparr>],
         settings := default_settings\<lparr>githubToken := Some ''ghp_token''\<rparr> \<rparr>"

definition sample_event :: "string \<Rightarrow> string \<Rightarrow> string \<Rightarrow> step_event" where
  "sample_event step st detail =
     \<lparr> ev_step = step, ev_status = st, ev_detail = Some detail, ev_data = None \<rparr>"






section \<open>Properties of the feature list\<close>

lemma length_flattenFeatures_feats:
  "length (flattenFeatures_feats e story acc fs) = length acc + length fs"
  by (induction fs arbitrary: acc) simp_all

lemma length_flattenFeatures_stories:
  "length (flattenFeatures_stories e acc ss) = countFeatures_stories (length acc) ss"
  by (induction ss arbitrary: acc) (simp_all add: length_flattenFeatures_feats)

lemma length_flattenFeatures_epics:
  "length (flattenFeatures_epics acc es) = countFeatures_epics (length acc) es"
  by (induction es arbitrary: acc) (simp_all add: length_flattenFeatures_stories)

text \<open>
  Claim C10: for every PRD tree, also one whose \<^verbatim>\<open>epics\<close>, \<^verbatim>\<open>user_stories\<close> or
  \<^verbatim>\<open>features\<close> arrays are missing, \<^verbatim>\<open>countFeatures\<close> returns the length of the list
  that \<^verbatim>\<open>flattenFeatures\<close> returns.
\<close>

theorem countFeatures_eq_length_flattenFeatures:
  "countFeatures p = length (flattenFeatures p)"
  by (simp add: countFeatures_def flattenFeatures_def length_flattenFeatures_epics)


section \<open>The stream handler, stage by stage\<close>

lemma state_of_simps [simp]: "state_of (Done s) = s" "state_of (Thrown s) = s"
  by (simp_all add: state_of_def)

lemma and_then_simps [simp]: "and_then (Done s) f = f s" "and_then (Thrown s) f = Thrown s"
  by (simp_all add: and_then_def)

lemma frame_chain:
  assumes "\<And>s. P (state_of (f s)) = P s"
  shows "P (state_of (and_then r f)) = P (state_of r)"
  by (cases r) (simp_all add: assms)

lemma map_list_update_same:
  assumes "f y = f (xs ! a)"
  shows "map f (xs[a := y]) = map f xs"
proof (cases "a < length xs")
  case True
  with assms show ?thesis
    by (simp add: map_update list_update_same_conv)
next
  case False
  then show ?thesis
    by (simp add: list_update_beyond)
qed

subsection \<open>What the stages leave alone\<close>

lemma assign_run_frame:
  assumes "\<And>r. status (f r) = status r" "\<And>r. elapsedTime (f r) = elapsedTime r"
    "\<And>r. run_error (f r) = run_error r"
  shows "run_frame (state_of (assign_run f s)) = run_frame s"
  by (simp add: assign_run_def run_frame_def map_list_update_same assms split: option.splits)

lemma assign_if_frame:
  assumes "\<And>r. status (f r) = status r" "\<And>r. elapsedTime (f r) = elapsedTime r"
    "\<And>r. run_error (f r) = run_error r"
  shows "run_frame (state_of (assign_if b f s)) = run_frame s"
  by (simp add: assign_if_def assign_run_frame assms)

lemma step_frame: "run_frame (state_of (sse_update_step ev s)) = run_frame s"
  by (simp add: sse_update_step_def step_call_def run_frame_def Let_def
      split: property.splits option.splits)

lemma progress_frame: "run_frame (state_of (sse_update_progress ev s)) = run_frame s"
  by (simp add: sse_update_progress_def run_frame_def split: property.splits)

lemma status_text_frame: "run_frame (state_of (sse_status_text ev s)) = run_frame s"
  by (simp add: sse_status_text_def run_frame_def)

lemma prd_preview_frame: "run_frame (state_of (sse_prd_preview ev s)) = run_frame s"
  by (simp add: sse_prd_preview_def run_frame_def)

lemma merge_data_frame: "run_frame (state_of (sse_merge_data ev s)) = run_frame s"
  unfolding sse_merge_data_def
  by (simp add: frame_chain [where P = run_frame] assign_if_frame)

lemma assign_run_gauge: "gauge (state_of (assign_run f s)) = gauge s"
  by (simp add: assign_run_def gauge_def split: option.splits)

lemma assign_if_gauge: "gauge (state_of (assign_if b f s)) = gauge s"
  by (simp add: assign_if_def assign_run_gauge)

lemma status_text_gauge: "gauge (state_of (sse_status_text ev s)) = gauge s"
  by (simp add: sse_status_text_def gauge_def)

lemma prd_preview_gauge: "gauge (state_of (sse_prd_preview ev s)) = gauge s"
  by (simp add: sse_prd_preview_def gauge_def)

lemma merge_data_gauge: "gauge (state_of (sse_merge_data ev s)) = gauge s"
  unfolding sse_merge_data_def
  by (simp add: frame_chain [where P = gauge] assign_if_gauge)

lemma save_to_history_gauge: "gauge (save_to_history tf s) = gauge s"
  by (simp add: save_to_history_def updateDashboard_def save_history_def push_current_def gauge_def
      split: option.splits)

lemma close_stream_gauge: "gauge (close_stream k s) = gauge s"
  by (simp add: close_stream_def gauge_def)

lemma pipeline_completed_gauge:
  "gauge (state_of (sse_pipeline_completed tf now rid t0 s)) = gauge s"
proof -
  have a: "\<And>s1. gauge (state_of (Done (s1\<lparr>net := net s1 @ [GET_run rid]\<rparr>))) = gauge s1"
    by (simp add: gauge_def)
  show ?thesis
    unfolding sse_pipeline_completed_def
    by (simp only: frame_chain [where P = gauge, OF a]
        frame_chain [where P = gauge, OF assign_run_gauge] assign_run_gauge)
qed

lemma pipeline_failed_gauge: "gauge (state_of (sse_pipeline_failed d s)) = gauge s"
proof -
  have a: "\<And>s1. gauge (state_of (Done (s1\<lparr>view := (showToast ''error'' ''Pipeline Failed'' d (view s1))
                       \<lparr>current_status := Span ''error'' (''Pipeline failed: '' @ escapeHtml d)\<rparr>\<rparr>))) = gauge s1"
    by (simp add: gauge_def showToast_def)
  show ?thesis
    unfolding sse_pipeline_failed_def
    by (simp only: frame_chain [where P = gauge, OF a]
        frame_chain [where P = gauge, OF assign_run_gauge] assign_run_gauge)
qed

lemma pipeline_gauge: "gauge (state_of (sse_pipeline tf now k rid t0 ev s)) = gauge s"
proof -
  have a: "\<And>s1. gauge (state_of (Done (save_to_history tf s1))) = gauge s1"
    by (simp add: save_to_history_gauge)
  show ?thesis
    unfolding sse_pipeline_def
    by (simp add: frame_chain [where P = gauge, OF a] pipeline_completed_gauge
        pipeline_failed_gauge close_stream_gauge)
qed

lemma onmessage_state:
  assumes "\<And>s c. P (s\<lparr>console := c\<rparr>) = P s"
  shows "P (onmessage tf now k rid t0 msg s) = P (state_of (onmessage_try tf now k rid t0 msg s))"
  by (cases "onmessage_try tf now k rid t0 msg s") (simp_all add: onmessage_def assms)

lemma gauge_console: "gauge (s\<lparr>console := c\<rparr>) = gauge s"
  by (simp add: gauge_def)

lemma run_frame_console: "run_frame (s\<lparr>console := c\<rparr>) = run_frame s"
  by (simp add: run_frame_def)

lemma onmessage_gauge:
  "gauge (onmessage tf now k rid t0 (Event ev) s)
   = gauge (state_of (and_then (sse_update_step ev s) (sse_update_progress ev)))"
  by (simp add: onmessage_state [where P = gauge, OF gauge_console] onmessage_try_def
      frame_chain [where P = gauge, OF pipeline_gauge]
      frame_chain [where P = gauge, OF merge_data_gauge]
      frame_chain [where P = gauge, OF prd_preview_gauge]
      frame_chain [where P = gauge, OF status_text_gauge])

subsection \<open>The step registry\<close>

lemma get_stepMapping_known:
  "get_property stepMapping ''enhance_idea'' = Own ''step-enhance''"
  "get_property stepMapping ''generate_prd'' = Own ''step-prd''"
  "get_property stepMapping ''create_repo'' = Own ''step-github''"
  "get_property stepMapping ''extract_features'' = Own ''step-features''"
  "get_property stepMapping ''implement'' = Own ''step-implement''"
  "get_property stepMapping ''publish'' = Own ''step-publish''"
  "get_property stepMapping ''pipeline'' = Missing"
  by (simp_all add: get_property_def stepMapping_def object_prototype_names_def)

lemma get_stepProgress_known:
  "get_property stepProgress ''enhance_idea'' = Own 16"
  "get_property stepProgress ''generate_prd'' = Own 33"
  "get_property stepProgress ''create_repo'' = Own 50"
  "get_property stepProgress ''extract_features'' = Own 66"
  "get_property stepProgress ''implement'' = Own 83"
  "get_property stepProgress ''publish'' = Own 95"
  "get_property stepProgress ''pipeline'' = Own 100"
  by (simp_all add: get_property_def stepProgress_def)

lemma stepProgress_cases:
  assumes "(k, w) \<in> set stepProgress"
  shows "(k = ''enhance_idea'' \<and> w = 16) \<or> (k = ''generate_prd'' \<and> w = 33)
       \<or> (k = ''create_repo'' \<and> w = 50) \<or> (k = ''extract_features'' \<and> w = 66)
       \<or> (k = ''implement'' \<and> w = 83) \<or> (k = ''publish'' \<and> w = 95)
       \<or> (k = ''pipeline'' \<and> w = 100)"
  using assms by (simp add: stepProgress_def)

lemma update_step_known_Done:
  assumes "(ev_step ev, w) \<in> set stepProgress"
  shows "\<exists>s1. sse_update_step ev s = Done s1"
  using stepProgress_cases [OF assms]
  by (auto simp: sse_update_step_def get_stepMapping_known Let_def step_call_def
      updateStepStatus_def step_ids_def)

lemma update_progress_known:
  assumes "(ev_step ev, w) \<in> set stepProgress"
  shows "overall_progress (view (state_of (sse_update_progress ev s)))
         = (if ev_status ev = ''completed'' then w else max (w - 10) 0)"
  using stepProgress_cases [OF assms]
  by (auto simp: sse_update_progress_def get_stepProgress_known updateProgress_def)

lemma update_step_unknown:
  assumes "ev_step ev \<notin> set (map fst stepProgress)"
  shows "gauge (state_of (sse_update_step ev s)) = gauge s"
proof -
  have "map_of stepMapping (ev_step ev) = None"
    using assms by (simp add: stepMapping_def stepProgress_def)
  then show ?thesis
    by (simp add: sse_update_step_def get_property_def Let_def)
qed

lemma update_progress_unknown:
  assumes "ev_step ev \<notin> set (map fst stepProgress)"
  shows "gauge (state_of (sse_update_progress ev s)) = gauge s"
proof -
  have "map_of stepProgress (ev_step ev) = None"
    using assms by (simp add: map_of_eq_None_iff)
  then show ?thesis
    by (simp add: sse_update_progress_def get_property_def)
qed

text \<open>
  Claim C8: when the step of an event is one of the seven known identifiers, the progress
  shown after the handler has run is the step's weight (16, 33, 50, 66, 83, 95, 100) for a
  \<^verbatim>\<open>completed\<close> event, and the weight minus 10, not below 0, for an \<^verbatim>\<open>in_progress\<close> event.
\<close>

theorem known_step_progress:
  assumes "(ev_step ev, w) \<in> set [(''enhance_idea'', 16), (''generate_prd'', 33),
      (''create_repo'', 50), (''extract_features'', 66), (''implement'', 83), (''publish'', 95),
      (''pipeline'', 100)]"
  shows "(ev_status ev = ''completed'' \<longrightarrow>
            overall_progress (view (onmessage tf now k rid t0 (Event ev) s)) = w)
       \<and> (ev_status ev = ''in_progress'' \<longrightarrow>
            overall_progress (view (onmessage tf now k rid t0 (Event ev) s)) = max (w - 10) 0)"
proof -
  have k: "(ev_step ev, w) \<in> set stepProgress"
    using assms by (simp add: stepProgress_def)
  obtain s1 where s1: "sse_update_step ev s = Done s1"
    using update_step_known_Done [OF k] by blast
  have "gauge (onmessage tf now k rid t0 (Event ev) s) = gauge (state_of (sse_update_progress ev s1))"
    by (simp add: onmessage_gauge s1)
  then have "overall_progress (view (onmessage tf now k rid t0 (Event ev) s))
      = overall_progress (view (state_of (sse_update_progress ev s1)))"
    by (simp add: gauge_def)
  then show ?thesis
    by (simp add: update_progress_known [OF k])
qed

theorem known_step_progress_witness:
  "overall_progress (view (onmessage (\<lambda>q. ''1.5'') 1500 0 ''r1'' 0
       (Event (sample_event ''create_repo'' ''completed'' ''Repository created'')) streaming_app)) = 50
   \<and> overall_progress (view (onmessage (\<lambda>q. ''1.5'') 1500 0 ''r1'' 0
       (Event (sample_event ''implement'' ''in_progress'' ''Implementing'')) streaming_app)) = 73"
  using known_step_progress [of "sample_event ''create_repo'' ''completed'' ''Repository created''" 50
      "\<lambda>q. ''1.5''" 1500 0 "''r1''" 0 streaming_app]
    known_step_progress [of "sample_event ''implement'' ''in_progress'' ''Implementing''" 83
      "\<lambda>q. ''1.5''" 1500 0 "''r1''" 0 streaming_app]
  by (simp add: sample_event_def)

subsection \<open>The terminal event\<close>


lemma merge_data_Done:
  assumes "currentRun s \<noteq> None"
  shows "\<exists>s1. sse_merge_data ev s = Done s1"
  using assms
  by (auto simp: sse_merge_data_def assign_if_def assign_run_def)











section \<open>The steps of the simulated pipeline, one by one\<close>

lemmas helper_defs = set_step_def set_status_text_def set_progress_def toast_def log_call_def
  log_error_def updateStepStatus_def

lemma helpers_ctl [simp]:
  "ctl (set_step i st tx s) = ctl s"
  "ctl (set_status_text l s) = ctl s"
  "ctl (set_progress n s) = ctl s"
  "ctl (toast ty tt m s) = ctl s"
  "ctl (log_call c s) = ctl s"
  "ctl (log_error m s) = ctl s"
  by (simp_all add: helper_defs ctl_def)

lemma helpers_objs [simp]:
  "objs (set_step i st tx s) = objs s"
  "objs (set_status_text l s) = objs s"
  "objs (set_progress n s) = objs s"
  "objs (toast ty tt m s) = objs s"
  "objs (log_call c s) = objs s"
  "objs (log_error m s) = objs s"
  by (simp_all add: helper_defs)

lemma helpers_net [simp]:
  "net (set_step i st tx s) = net s"
  "net (set_status_text l s) = net s"
  "net (set_progress n s) = net s"
  "net (toast ty tt m s) = net s"
  "net (log_call c s) = net s @ [c]"
  "net (log_error m s) = net s"
  "net (set_run f s) = net s"
  "net (alloc_run r s) = net s"
  by (simp_all add: helper_defs set_run_def alloc_run_def split: option.splits)

lemma ctl_fields:
  assumes "ctl s1 = ctl s"
  shows "currentRun s1 = currentRun s" "runHistory s1 = runHistory s"
    "length (objs s1) = length (objs s)" "eventSources s1 = eventSources s"
    "stored_runHistory s1 = stored_runHistory s" "settings s1 = settings s"
  using assms by (simp_all add: ctl_def)

lemma set_run_ctl [simp]: "ctl (set_run f s) = ctl s"
  by (simp add: set_run_def ctl_def split: option.splits)

lemma set_run_objs:
  assumes "currentRun s = Some a"
  shows "objs (set_run f s) = (objs s)[a := f (objs s ! a)]"
  using assms by (simp add: set_run_def)

lemma set_run_kept:
  assumes "\<And>r. kept_of (f r) = kept_of r"
  shows "map kept_of (objs (set_run f s)) = map kept_of (objs s)"
  by (simp add: set_run_def map_list_update_same assms split: option.splits)

lemma the_run_helpers [simp]:
  "the_run (set_step i st tx s) = the_run s"
  "the_run (set_status_text l s) = the_run s"
  "the_run (set_progress n s) = the_run s"
  "the_run (toast ty tt m s) = the_run s"
  "the_run (log_call c s) = the_run s"
  "the_run (log_error m s) = the_run s"
  by (simp_all add: helper_defs the_run_def split: option.splits)

lemma step_github_frame:
  "ctl (state_of (step_github e api idea s)) = ctl s"
  "map kept_of (objs (state_of (step_github e api idea s))) = map kept_of (objs s)"
  by (simp_all add: step_github_def Let_def set_run_kept kept_of_def
      split: option.splits reply.splits)

lemma step_github_Done_iff:
  "(\<exists>s1. step_github e api idea s = Done s1) = (title idea \<noteq> None)"
  by (simp add: step_github_def Let_def split: option.splits)

lemma steps_after_frame:
  "ctl (step_features_legacy s) = ctl s" "objs (step_features_legacy s) = objs s"
  "ctl (step_features_review s) = ctl s" "objs (step_features_review s) = objs s"
  "ctl (step_implement s) = ctl s" "objs (step_implement s) = objs s"
  "ctl (step_publish e idea s) = ctl s" "objs (step_publish e idea s) = objs s"
  by (simp_all add: step_features_legacy_def step_features_review_def step_implement_def
      step_publish_def Let_def split: reply.splits)

lemma list_update_twice_at [simp]:
  "xs[a := f (xs[a := y] ! a)] = xs[a := f y]"
  by (cases "a < length xs") (simp_all add: list_update_beyond)

lemma complete_run_frame:
  "ctl (complete_run e start s) = ctl s"
  by (simp add: complete_run_def Let_def ctl_def toast_def set_run_def split: option.splits)

lemma complete_run_objs:
  assumes "currentRun s = Some a"
  shows "objs (complete_run e start s)
     = (objs s)[a := (objs s ! a)\<lparr>status := ''success'', elapsedTime := Some (elapsed_text e start)\<rparr>]"
  using assms
  by (simp add: complete_run_def Let_def toast_def set_run_def the_run_def split: option.splits)

lemma fail_run_frame: "ctl (fail_run m s) = ctl s"
  by (simp add: fail_run_def)

lemma fail_run_objs:
  assumes "currentRun s = Some a"
  shows "objs (fail_run m s)
     = (objs s)[a := (objs s ! a)\<lparr>status := ''failed'', run_error := Some m\<rparr>]"
  using assms by (simp add: fail_run_def set_run_def)

lemma save_to_history_result:
  assumes "currentRun s = Some a"
  shows "runHistory (save_to_history tf s) = runHistory s @ [a]"
    "objs (save_to_history tf s) = objs s"
    "currentRun (save_to_history tf s) = Some a"
    "stored_runHistory (save_to_history tf s) = history_records (save_to_history tf s)"
    "net (save_to_history tf s) = net s"
    "settings (save_to_history tf s) = settings s"
  using assms
  by (simp_all add: save_to_history_def updateDashboard_def save_history_def push_current_def
      history_records_def)


lemma finish_steps_frame: "ctl (finish_steps e start idea stepf api s) = ctl s"
  if "\<And>s. ctl (stepf s) = ctl s"
  using step_github_frame(1) [of e api idea s]
  by (cases "step_github e api idea s")
     (simp_all add: finish_steps_def fail_run_frame complete_run_frame steps_after_frame that)

lemma finish_steps_success:
  assumes "currentRun s = Some a" "a < length (objs s)" "title idea = Some t"
    and f: "\<And>s. ctl (stepf s) = ctl s" "\<And>s. objs (stepf s) = objs s"
  shows "status (objs (finish_steps e start idea stepf api s) ! a) = ''success''"
    "elapsedTime (objs (finish_steps e start idea stepf api s) ! a) = Some (elapsed_text e start)"
    "featuresCount (objs (finish_steps e start idea stepf api s) ! a) = featuresCount (objs s ! a)"
    "selectedFeatures (objs (finish_steps e start idea stepf api s) ! a) = selectedFeatures (objs s ! a)"
    "run_error (objs (finish_steps e start idea stepf api s) ! a) = run_error (objs s ! a)"
proof -
  obtain s1 where s1: "step_github e api idea s = Done s1"
    using step_github_Done_iff [of e api idea s] assms(3) by auto
  have c1: "ctl s1 = ctl s" and k1: "map kept_of (objs s1) = map kept_of (objs s)"
    using step_github_frame [of e api idea s] by (simp_all add: s1)
  let ?s2 = "step_publish e idea (step_implement (stepf s1))"
  have c2: "ctl ?s2 = ctl s" and o2: "objs ?s2 = objs s1"
    by (simp_all add: steps_after_frame f c1)
  have cur: "currentRun ?s2 = Some a" and len: "a < length (objs ?s2)"
    using ctl_fields [OF c2] assms(1,2) by simp_all
  have k: "kept_of (objs s1 ! a) = kept_of (objs s ! a)"
    using k1 len o2 assms(2) by (metis nth_map)
  have fin: "finish_steps e start idea stepf api s = complete_run e start ?s2"
    by (simp add: finish_steps_def s1)
  show "status (objs (finish_steps e start idea stepf api s) ! a) = ''success''"
    "elapsedTime (objs (finish_steps e start idea stepf api s) ! a) = Some (elapsed_text e start)"
    "featuresCount (objs (finish_steps e start idea stepf api s) ! a) = featuresCount (objs s ! a)"
    "selectedFeatures (objs (finish_steps e start idea stepf api s) ! a) = selectedFeatures (objs s ! a)"
    "run_error (objs (finish_steps e start idea stepf api s) ! a) = run_error (objs s ! a)"
    using k len by (simp_all add: fin complete_run_objs [OF cur] o2 kept_of_def)
qed

lemma finish_steps_failure:
  assumes "currentRun s = Some a" "a < length (objs s)" "title idea = None"
  shows "status (objs (finish_steps e start idea stepf api s) ! a) = ''failed''"
    "run_error (objs (finish_steps e start idea stepf api s) ! a) = Some (type_error_message e)"
    "elapsedTime (objs (finish_steps e start idea stepf api s) ! a) = elapsedTime (objs s ! a)"
    "featuresCount (objs (finish_steps e start idea stepf api s) ! a) = featuresCount (objs s ! a)"
proof -
  obtain s1 where s1: "step_github e api idea s = Thrown s1"
    using step_github_Done_iff [of e api idea s] assms(3) by (cases "step_github e api idea s") auto
  have c1: "ctl s1 = ctl s" and k1: "map kept_of (objs s1) = map kept_of (objs s)"
    using step_github_frame [of e api idea s] by (simp_all add: s1)
  have cur: "currentRun s1 = Some a" and len: "a < length (objs s1)"
    using ctl_fields [OF c1] assms(1,2) by simp_all
  have k: "kept_of (objs s1 ! a) = kept_of (objs s ! a)"
    using k1 len assms(2) by (metis nth_map)
  have fin: "finish_steps e start idea stepf api s = fail_run (type_error_message e) s1"
    by (simp add: finish_steps_def s1)
  show "status (objs (finish_steps e start idea stepf api s) ! a) = ''failed''"
    "run_error (objs (finish_steps e start idea stepf api s) ! a) = Some (type_error_message e)"
    "elapsedTime (objs (finish_steps e start idea stepf api s) ! a) = elapsedTime (objs s ! a)"
    "featuresCount (objs (finish_steps e start idea stepf api s) ! a) = featuresCount (objs s ! a)"
    using k len by (simp_all add: fin fail_run_objs [OF cur] kept_of_def)
qed

section \<open>Selecting features\<close>

lemma select_features_subseq: "subseq (select_features idx xs) xs"
proof -
  have "subseq (map snd (filter (\<lambda>(i, f). i \<in> set idx) (enumerate 0 xs))) (map snd (enumerate 0 xs))"
    by (intro subseq_map subseq_filter_left)
  then show ?thesis
    by (simp add: select_features_def)
qed

lemma select_features_all: "select_features [0..<length xs] xs = xs"
proof -
  have "filter (\<lambda>(i, f). i \<in> set [0..<length xs]) (enumerate 0 xs) = enumerate 0 xs"
    by (rule filter_True) (auto simp: in_set_enumerate_eq)
  then show ?thesis
    by (simp add: select_features_def)
qed

lemma select_features_none: "select_features [] xs = []"
  by (simp add: select_features_def)

lemma length_select_features:
  "length (select_features idx xs) = card (set idx \<inter> {..<length xs})"
proof -
  have "length (select_features idx xs)
      = length (map fst (filter ((\<lambda>i. i \<in> set idx) \<circ> fst) (enumerate 0 xs)))"
    by (simp add: select_features_def comp_def case_prod_unfold)
  also have "\<dots> = length (filter (\<lambda>i. i \<in> set idx) (map fst (enumerate 0 xs)))"
    by (simp only: filter_map)
  also have "\<dots> = length (filter (\<lambda>i. i \<in> set idx) [0..<length xs])"
    by simp
  also have "\<dots> = card ({i. i \<in> set idx} \<inter> set [0..<length xs])"
    by (rule distinct_length_filter) simp
  also have "\<dots> = card (set idx \<inter> {..<length xs})"
    by (simp add: lessThan_atLeast0)
  finally show ?thesis .
qed

lemma length_select_features_distinct:
  assumes "distinct idx" "set idx \<subseteq> {..<length xs}"
  shows "length (select_features idx xs) = length idx"
proof -
  have "set idx \<inter> {..<length xs} = set idx"
    using assms(2) by blast
  then show ?thesis
    by (simp add: length_select_features distinct_card assms(1))
qed

lemma countFeatures_stories_add:
  "countFeatures_stories n ss = n + countFeatures_stories 0 ss"
proof (induction ss arbitrary: n)
  case Nil
  then show ?case by simp
next
  case (Cons x ss)
  show ?case
    using Cons.IH [of "n + length (or_list (features x))"] Cons.IH [of "length (or_list (features x))"]
    by simp
qed

lemma countFeatures_epics_add:
  "countFeatures_epics n es = n + countFeatures_epics 0 es"
proof (induction es arbitrary: n)
  case Nil
  then show ?case by simp
next
  case (Cons x es)
  show ?case
    using Cons.IH [of "countFeatures_stories n (or_list (user_stories x))"]
      Cons.IH [of "countFeatures_stories 0 (or_list (user_stories x))"]
      countFeatures_stories_add [of n "or_list (user_stories x)"]
    by simp
qed

lemma checklist_feats_boxes:
  "checklist_feats (n, boxes) fs
   = (n + length fs, boxes @ map (\<lambda>i. (i, True)) [n..<n + length fs])"
proof (induction fs arbitrary: n boxes)
  case Nil
  then show ?case by simp
next
  case (Cons f fs)
  have "[n..<Suc (n + length fs)] = n # [Suc n..<Suc (n + length fs)]"
    by (subst upt_rec) simp
  then show ?case
    by (simp add: Cons.IH)
qed

lemma checklist_stories_boxes:
  "checklist_stories (n, boxes) ss
   = (n + countFeatures_stories 0 ss,
      boxes @ map (\<lambda>i. (i, True)) [n..<n + countFeatures_stories 0 ss])"
proof (induction ss arbitrary: n boxes)
  case Nil
  then show ?case by simp
next
  case (Cons x ss)
  let ?l = "length (or_list (features x))"
  have c: "countFeatures_stories ?l ss = ?l + countFeatures_stories 0 ss"
    by (rule countFeatures_stories_add)
  have "[n..<n + ?l + countFeatures_stories 0 ss]
      = [n..<n + ?l] @ [n + ?l..<n + ?l + countFeatures_stories 0 ss]"
    by (rule upt_add_eq_append) simp
  then show ?case
    by (simp add: checklist_feats_boxes Cons.IH c add.assoc)
qed

lemma checklist_epics_boxes:
  "checklist_epics (n, boxes) es
   = (n + countFeatures_epics 0 es,
      boxes @ map (\<lambda>i. (i, True)) [n..<n + countFeatures_epics 0 es])"
proof (induction es arbitrary: n boxes)
  case Nil
  then show ?case by simp
next
  case (Cons x es)
  let ?l = "countFeatures_stories 0 (or_list (user_stories x))"
  have c: "countFeatures_epics ?l es = ?l + countFeatures_epics 0 es"
    by (rule countFeatures_epics_add)
  have "[n..<n + ?l + countFeatures_epics 0 es]
      = [n..<n + ?l] @ [n + ?l..<n + ?l + countFeatures_epics 0 es]"
    by (rule upt_add_eq_append) simp
  then show ?case
    by (simp add: checklist_stories_boxes Cons.IH c add.assoc)
qed

lemma rendered_checklist:
  "feature_checklist (renderReviewSection idea pr u)
   = map (\<lambda>i. (i, True)) [0..<length (flattenFeatures (res_prd pr))]"
  by (simp add: renderReviewSection_def Let_def checklist_epics_boxes flattenFeatures_def
      length_flattenFeatures_epics)

lemma rendered_checklist_selects_all:
  "select_features (getSelectedFeatureIndices (renderReviewSection idea pr u))
     (flattenFeatures (res_prd pr)) = flattenFeatures (res_prd pr)"
proof -
  have "getSelectedFeatureIndices (renderReviewSection idea pr u)
      = [0..<length (flattenFeatures (res_prd pr))]"
    by (simp add: getSelectedFeatureIndices_def rendered_checklist filter_map comp_def map_idI)
  then show ?thesis
    by (simp add: select_features_all)
qed

section \<open>Before the run and its first two steps\<close>

lemma preflight_app_simps [simp]:
  "preflight_app (Rejected s) = s" "preflight_app (Ready api i t s) = s"
  by (simp_all add: preflight_app_def)

lemma create_repo_calls_helpers [simp]:
  "create_repo_calls (set_step i st tx s) = create_repo_calls s"
  "create_repo_calls (set_status_text l s) = create_repo_calls s"
  "create_repo_calls (set_progress n s) = create_repo_calls s"
  "create_repo_calls (toast ty tt m s) = create_repo_calls s"
  "create_repo_calls (log_error m s) = create_repo_calls s"
  "create_repo_calls (set_run f s) = create_repo_calls s"
  "create_repo_calls (alloc_run r s) = create_repo_calls s"
  "create_repo_calls (log_call c s) = create_repo_calls s @ (if is_create_repo c then [c] else [])"
  by (simp_all add: create_repo_calls_def)

lemma is_create_repo_simps [simp]:
  "\<not> is_create_repo GET_health"
  "\<not> is_create_repo (POST_validate_token tok)"
  "\<not> is_create_repo (POST_run rq)"
  "\<not> is_create_repo (GET_stream rid)"
  "\<not> is_create_repo (GET_run rid)"
  "\<not> is_create_repo (POST_enhance_idea k i t)"
  "\<not> is_create_repo (POST_generate_prd k idea)"
  "is_create_repo (POST_create_repo tok nm d pr)"
  "\<not> is_create_repo (POST_push_files tok nm files)"
  by (simp_all add: is_create_repo_def)

lemma set_username_frame [simp]:
  "objs (set_username u s) = objs s" "currentRun (set_username u s) = currentRun s"
  "runHistory (set_username u s) = runHistory s" "net (set_username u s) = net s"
  "create_repo_calls (set_username u s) = create_repo_calls s"
  "eventSources (set_username u s) = eventSources s"
  "stored_runHistory (set_username u s) = stored_runHistory s"
  "view (set_username u s) = view s"
  by (simp_all add: set_username_def save_settings_def create_repo_calls_def)

lemma quiet_helpers [simp]:
  "quiet (set_step i st tx s) = quiet s"
  "quiet (set_status_text l s) = quiet s"
  "quiet (set_progress n s) = quiet s"
  "quiet (toast ty tt m s) = quiet s"
  "quiet (log_error m s) = quiet s"
  "quiet (set_username u s) = quiet s"
  "\<not> is_create_repo c \<Longrightarrow> quiet (log_call c s) = quiet s"
  by (simp_all add: quiet_def helper_defs create_repo_calls_def set_username_def save_settings_def)

lemma check_token_quiet: "quiet (check_token e api s) = quiet s"
  by (simp add: check_token_def Let_def)

lemma check_username_quiet: "quiet (preflight_app (check_username e api i t s)) = quiet s"
  by (simp add: check_username_def)

lemma run_preflight_quiet: "quiet (preflight_app (run_preflight e s)) = quiet s"
  by (simp add: run_preflight_def Let_def check_username_quiet check_token_quiet)

lemma run_preflight_empty:
  assumes "js_trim (idea_input (view s)) = []"
  shows "run_preflight e s
     = Rejected (toast ''warning'' ''Missing Input'' ''Please describe your application idea'' s)"
  using assms by (simp add: run_preflight_def)

lemma run_preflight_view_inputs:
  "idea_input (view (preflight_app (run_preflight e s))) = idea_input (view s)"
  by (simp add: run_preflight_def Let_def check_username_def check_token_def helper_defs showToast_def)

lemma run_preflight_offline:
  assumes "js_trim (idea_input (view s)) \<noteq> []" "fst (checkApiServer e) = False"
    "isValidGitHubUsername (githubUsername (settings s))"
  shows "\<exists>s1. run_preflight e s
     = Ready False (js_trim (idea_input (view s))) (js_trim (tech_preferences (view s))) s1
     \<and> quiet s1 = quiet s \<and> settings s1 = settings s"
  using assms
  by (simp add: run_preflight_def Let_def check_username_def check_token_def helper_defs quiet_def
      create_repo_calls_def)

lemma helpers_currentRun [simp]:
  "currentRun (set_step i st tx s) = currentRun s"
  "currentRun (set_status_text l s) = currentRun s"
  "currentRun (set_progress n s) = currentRun s"
  "currentRun (toast ty tt m s) = currentRun s"
  "currentRun (log_call c s) = currentRun s"
  "currentRun (log_error m s) = currentRun s"
  "currentRun (set_run f s) = currentRun s"
  by (simp_all add: helper_defs set_run_def split: option.splits)

lemma helpers_settings [simp]:
  "settings (set_step i st tx s) = settings s"
  "settings (set_status_text l s) = settings s"
  "settings (set_progress n s) = settings s"
  "settings (toast ty tt m s) = settings s"
  "settings (log_call c s) = settings s"
  "settings (log_error m s) = settings s"
  "settings (set_run f s) = settings s"
  by (simp_all add: helper_defs set_run_def split: option.splits)

lemma step_enhance_frame:
  "ctl (snd (step_enhance e api i t s)) = ctl s"
  "create_repo_calls (snd (step_enhance e api i t s)) = create_repo_calls s"
  by (simp_all add: step_enhance_def fallback_idea_step_def Let_def split: reply.splits option.splits)

lemma step_enhance_objs:
  assumes "currentRun s = Some a"
  shows "objs (snd (step_enhance e api i t s))
     = (objs s)[a := (objs s ! a)\<lparr>projectTitle := title (fst (step_enhance e api i t s)),
           description := idea_description (fst (step_enhance e api i t s)),
           enhancedIdea := Some (fst (step_enhance e api i t s))\<rparr>]"
  using assms
  by (simp add: step_enhance_def fallback_idea_step_def Let_def set_run_objs
      split: reply.splits option.splits)

lemma step_enhance_offline:
  "fst (step_enhance e False i t s) = buildFallbackEnhancedIdea i t"
  by (simp add: step_enhance_def fallback_idea_step_def Let_def)

lemma step_prd_frame:
  "ctl (snd (step_prd e api idea s)) = ctl s"
  "create_repo_calls (snd (step_prd e api idea s)) = create_repo_calls s"
  by (simp_all add: step_prd_def fallback_prd_step_def Let_def split: reply.splits option.splits)

lemma step_prd_objs:
  assumes "currentRun s = Some a"
  shows "objs (snd (step_prd e api idea s))
     = (objs s)[a := (objs s ! a)\<lparr>run_prd := Some (res_prd (fst (step_prd e api idea s))),
           prdMarkdown := res_prd_markdown (fst (step_prd e api idea s)),
           epicsCount := Some (length (or_list (epics (res_prd (fst (step_prd e api idea s)))))),
           featuresCount := Some (countFeatures (res_prd (fst (step_prd e api idea s))))\<rparr>]"
  using assms
  by (simp add: step_prd_def fallback_prd_step_def Let_def set_run_objs
      split: reply.splits option.splits)

lemma step_prd_offline:
  "fst (step_prd e False idea s) = buildFallbackPRD idea"
  by (simp add: step_prd_def fallback_prd_step_def Let_def)

section \<open>Resuming after the review\<close>

lemma alloc_run_facts:
  "currentRun (alloc_run r s) = Some (length (objs s))"
  "objs (alloc_run r s) = objs s @ [r]"
  "runHistory (alloc_run r s) = runHistory s"
  "settings (alloc_run r s) = settings s"
  by (simp_all add: alloc_run_def)

lemma continueAfterReview_unfold:
  assumes "currentRun s = Some a" "enhancedIdea (objs s ! a) = Some idea" "run_prd (objs s ! a) = Some p"
  shows "continueAfterReview e s
     = save_to_history (toFixed e)
         (finish_steps e (startTime (objs s ! a)) idea step_features_review
            (apiRunning (objs s ! a) = Some True)
            (set_status_text (Text ''Continuing build...'')
               ((set_run (\<lambda>x. x\<lparr>featuresCount := Some (length (select_features
                                    (getSelectedFeatureIndices (view s)) (flattenFeatures p))),
                                  selectedFeatures := Some (select_features
                                    (getSelectedFeatureIndices (view s)) (flattenFeatures p))\<rparr>) s)
                \<lparr>view := (view (set_run (\<lambda>x. x\<lparr>featuresCount := Some (length (select_features
                                    (getSelectedFeatureIndices (view s)) (flattenFeatures p))),
                                  selectedFeatures := Some (select_features
                                    (getSelectedFeatureIndices (view s)) (flattenFeatures p))\<rparr>) s))
                           \<lparr>prd_review_section := False\<rparr>\<rparr>)))"
  using assms by (simp add: continueAfterReview_def the_run_def Let_def)

lemma continueAfterReview_result:
  assumes "currentRun s = Some a" "a < length (objs s)"
    "enhancedIdea (objs s ! a) = Some idea" "run_prd (objs s ! a) = Some p"
  defines "sel \<equiv> select_features (getSelectedFeatureIndices (view s)) (flattenFeatures p)"
  shows "runHistory (continueAfterReview e s) = runHistory s @ [a]"
    "featuresCount (objs (continueAfterReview e s) ! a) = Some (length sel)"
    "title idea \<noteq> None \<Longrightarrow> selectedFeatures (objs (continueAfterReview e s) ! a) = Some sel"
    "title idea \<noteq> None \<Longrightarrow> status (objs (continueAfterReview e s) ! a) = ''success''"
    "title idea \<noteq> None \<Longrightarrow> elapsedTime (objs (continueAfterReview e s) ! a)
        = Some (elapsed_text e (startTime (objs s ! a)))"
    "title idea = None \<Longrightarrow> status (objs (continueAfterReview e s) ! a) = ''failed''"
    "title idea = None \<Longrightarrow> elapsedTime (objs (continueAfterReview e s) ! a) = elapsedTime (objs s ! a)"
    "stored_runHistory (continueAfterReview e s) = history_records (continueAfterReview e s)"
proof -
  let ?f = "\<lambda>x. x\<lparr>featuresCount := Some (length sel), selectedFeatures := Some sel\<rparr>"
  let ?s2 = "set_status_text (Text ''Continuing build...'')
               ((set_run ?f s)\<lparr>view := (view (set_run ?f s))\<lparr>prd_review_section := False\<rparr>\<rparr>)"
  let ?s3 = "finish_steps e (startTime (objs s ! a)) idea step_features_review
            (apiRunning (objs s ! a) = Some True) ?s2"
  have u: "continueAfterReview e s = save_to_history (toFixed e) ?s3"
    using continueAfterReview_unfold [OF assms(1,3,4)] by (simp add: sel_def)
  have c2: "currentRun ?s2 = Some a" and l2: "a < length (objs ?s2)"
    and o2: "objs ?s2 = (objs s)[a := ?f (objs s ! a)]" and h2: "runHistory ?s2 = runHistory s"
    using assms(1,2) by (simp_all add: set_status_text_def set_run_def)
  have o1: "objs (set_run ?f s) = (objs s)[a := ?f (objs s ! a)]"
    by (rule set_run_objs [OF assms(1)])
  have c3: "ctl ?s3 = ctl ?s2"
    by (rule finish_steps_frame) (simp add: steps_after_frame)
  have cur3: "currentRun ?s3 = Some a" and h3: "runHistory ?s3 = runHistory s"
    using ctl_fields [OF c3] c2 h2 by simp_all
  note sv = save_to_history_result [OF cur3, of "toFixed e"]
  show "runHistory (continueAfterReview e s) = runHistory s @ [a]"
    by (simp add: u sv h3)
  show "stored_runHistory (continueAfterReview e s) = history_records (continueAfterReview e s)"
    by (simp add: u sv)
  have fc: "featuresCount (objs ?s3 ! a) = featuresCount (objs ?s2 ! a)"
  proof (cases "title idea")
    case None
    then show ?thesis
      using finish_steps_failure(4) [OF c2 l2] by simp
  next
    case (Some t)
    then show ?thesis
      using finish_steps_success(3) [OF c2 l2 Some] by (simp add: steps_after_frame)
  qed
  show "featuresCount (objs (continueAfterReview e s) ! a) = Some (length sel)"
    using assms(2) by (simp add: u sv fc o1)
  {
    assume "title idea \<noteq> None"
    then obtain t where t: "title idea = Some t" by auto
    note ok = finish_steps_success [OF c2 l2 t, of step_features_review e "startTime (objs s ! a)"
        "apiRunning (objs s ! a) = Some True", OF steps_after_frame(3) steps_after_frame(4)]
    show "selectedFeatures (objs (continueAfterReview e s) ! a) = Some sel"
      using assms(2) by (simp add: u sv ok o1)
    show "status (objs (continueAfterReview e s) ! a) = ''success''"
      by (simp add: u sv ok)
    show "elapsedTime (objs (continueAfterReview e s) ! a)
        = Some (elapsed_text e (startTime (objs s ! a)))"
      by (simp add: u sv ok)
  }
  {
    assume n: "title idea = None"
    note bad = finish_steps_failure [OF c2 l2 n, of e "startTime (objs s ! a)" step_features_review
        "apiRunning (objs s ! a) = Some True"]
    show "status (objs (continueAfterReview e s) ! a) = ''failed''"
      by (simp add: u sv bad)
    show "elapsedTime (objs (continueAfterReview e s) ! a) = elapsedTime (objs s ! a)"
      using assms(2) by (simp add: u sv bad o1)
  }
qed

section \<open>The start of the review-gate version\<close>

lemma quiet_fields:
  assumes "quiet s1 = quiet s"
  shows "currentRun s1 = currentRun s" "runHistory s1 = runHistory s" "objs s1 = objs s"
    "eventSources s1 = eventSources s" "stored_runHistory s1 = stored_runHistory s"
    "create_repo_calls s1 = create_repo_calls s"
  using assms by (simp_all add: quiet_def)

lemma first_two_steps:
  fixes e :: env and api :: bool and i t :: string and s :: app and a :: nat
  assumes "currentRun s = Some a" "a < length (objs s)"
  defines "idea \<equiv> fst (step_enhance e api i t s)"
  defines "s3 \<equiv> snd (step_enhance e api i t s)"
  defines "pr \<equiv> fst (step_prd e api idea s3)"
  defines "s4 \<equiv> snd (step_prd e api idea s3)"
  shows "ctl s4 = ctl s"
    "create_repo_calls s4 = create_repo_calls s"
    "map status (objs s4) = map status (objs s)"
    "map elapsedTime (objs s4) = map elapsedTime (objs s)"
    "enhancedIdea (objs s4 ! a) = Some idea"
    "run_prd (objs s4 ! a) = Some (res_prd pr)"
    "featuresCount (objs s4 ! a) = Some (countFeatures (res_prd pr))"
    "startTime (objs s4 ! a) = startTime (objs s ! a)"
    "apiRunning (objs s4 ! a) = apiRunning (objs s ! a)"
proof -
  have c3: "ctl s3 = ctl s"
    by (simp add: s3_def step_enhance_frame)
  have cur3: "currentRun s3 = Some a" and l3: "a < length (objs s3)"
    using ctl_fields [OF c3] assms(1,2) by simp_all
  have o3: "objs s3 = (objs s)[a := (objs s ! a)\<lparr>projectTitle := title idea,
           description := idea_description idea, enhancedIdea := Some idea\<rparr>]"
    unfolding s3_def idea_def by (rule step_enhance_objs [OF assms(1)])
  have o4: "objs s4 = (objs s3)[a := (objs s3 ! a)\<lparr>run_prd := Some (res_prd pr),
           prdMarkdown := res_prd_markdown pr,
           epicsCount := Some (length (or_list (epics (res_prd pr)))),
           featuresCount := Some (countFeatures (res_prd pr))\<rparr>]"
    unfolding s4_def pr_def by (rule step_prd_objs [OF cur3])
  show "ctl s4 = ctl s"
    by (simp add: s4_def step_prd_frame c3)
  show "create_repo_calls s4 = create_repo_calls s"
    by (simp add: s4_def s3_def step_prd_frame step_enhance_frame)
  show "map status (objs s4) = map status (objs s)"
    using assms(2) by (simp add: o4 o3 map_list_update_same)
  show "map elapsedTime (objs s4) = map elapsedTime (objs s)"
    using assms(2) by (simp add: o4 o3 map_list_update_same)
  show "enhancedIdea (objs s4 ! a) = Some idea"
    "run_prd (objs s4 ! a) = Some (res_prd pr)"
    "featuresCount (objs s4 ! a) = Some (countFeatures (res_prd pr))"
    "startTime (objs s4 ! a) = startTime (objs s ! a)"
    "apiRunning (objs s4 ! a) = apiRunning (objs s ! a)"
    using assms(2) by (simp_all add: o4 o3)
qed

lemma startRun_review_unfold:
  fixes e :: env and api :: bool and i t :: string and s s1 :: app
  assumes "run_preflight e s = Ready api i t s1"
  defines "s2 \<equiv> alloc_run (new_run (now_start e) (stamp_start e) (Some (now_start e)) (Some api))
                     (s1\<lparr>view := (view s1)\<lparr>progress_section := True, results_section := False,
                                           prd_review_section := False\<rparr>\<rparr>)"
  defines "idea \<equiv> fst (step_enhance e api i t s2)"
  defines "s3 \<equiv> snd (step_enhance e api i t s2)"
  defines "pr \<equiv> fst (step_prd e api idea s3)"
  defines "s4 \<equiv> snd (step_prd e api idea s3)"
  shows "startRun_review e s
     = toast ''info'' ''Review Required'' ''Review the enhanced idea and PRD before continuing.''
         ((set_status_text (Span ''warning'' (pause_mark @ '' Review the PRD below, then click Continue to Build'')) s4)
          \<lparr>view := renderReviewSection idea pr
             ((view (set_status_text (Span ''warning'' (pause_mark @ '' Review the PRD below, then click Continue to Build'')) s4))
              \<lparr>prd_review_section := True\<rparr>)\<rparr>)"
  by (simp add: startRun_review_def assms Let_def case_prod_unfold)

lemma startRun_review_paused:
  assumes "run_preflight e s = Ready api i t s1"
  shows "\<exists>idea pr.
       currentRun (startRun_review e s) = Some (length (objs s))
     \<and> length (objs (startRun_review e s)) = Suc (length (objs s))
     \<and> runHistory (startRun_review e s) = runHistory s
     \<and> create_repo_calls (startRun_review e s) = create_repo_calls s
     \<and> status (objs (startRun_review e s) ! length (objs s)) = ''running''
     \<and> elapsedTime (objs (startRun_review e s) ! length (objs s)) = None
     \<and> enhancedIdea (objs (startRun_review e s) ! length (objs s)) = Some idea
     \<and> run_prd (objs (startRun_review e s) ! length (objs s)) = Some (res_prd pr)
     \<and> featuresCount (objs (startRun_review e s) ! length (objs s))
         = Some (length (flattenFeatures (res_prd pr)))
     \<and> startTime (objs (startRun_review e s) ! length (objs s)) = Some (now_start e)
     \<and> prd_review_section (view (startRun_review e s))
     \<and> feature_checklist (view (startRun_review e s))
         = map (\<lambda>i. (i, True)) [0..<length (flattenFeatures (res_prd pr))]
     \<and> (\<not> api \<longrightarrow> idea = buildFallbackEnhancedIdea i t \<and> pr = buildFallbackPRD idea)"
proof -
  let ?a = "length (objs s)"
  let ?s2 = "alloc_run (new_run (now_start e) (stamp_start e) (Some (now_start e)) (Some api))
                     (s1\<lparr>view := (view s1)\<lparr>progress_section := True, results_section := False,
                                           prd_review_section := False\<rparr>\<rparr>)"
  let ?idea = "fst (step_enhance e api i t ?s2)"
  let ?s3 = "snd (step_enhance e api i t ?s2)"
  let ?pr = "fst (step_prd e api ?idea ?s3)"
  let ?s4 = "snd (step_prd e api ?idea ?s3)"
  have q: "quiet s1 = quiet s"
    using run_preflight_quiet [of e s] assms by simp
  note q1 = quiet_fields [OF q]
  have c2: "currentRun ?s2 = Some ?a" and l2: "?a < length (objs ?s2)"
    and o2: "objs ?s2 ! ?a = new_run (now_start e) (stamp_start e) (Some (now_start e)) (Some api)"
    and len2: "length (objs ?s2) = Suc ?a" and h2: "runHistory ?s2 = runHistory s"
    and cr2: "create_repo_calls ?s2 = create_repo_calls s"
    using q1 by (simp_all add: alloc_run_def create_repo_calls_def)
  note f = first_two_steps [OF c2 l2, of e api i t]
  note u = startRun_review_unfold [OF assms]
  have st: "status (objs ?s4 ! ?a) = ''running''"
    using f(3) l2 o2 ctl_fields(3) [OF f(1)]
    by (metis (no_types, lifting) new_run_def nth_map run.select_convs(3))
  have el: "elapsedTime (objs ?s4 ! ?a) = None"
    using f(4) l2 o2 ctl_fields(3) [OF f(1)]
    by (metis (no_types, lifting) new_run_def nth_map run.select_convs(17))
  have off: "\<not> api \<longrightarrow> ?idea = buildFallbackEnhancedIdea i t \<and> ?pr = buildFallbackPRD ?idea"
    by (simp add: step_enhance_offline step_prd_offline)
  have g: "objs (startRun_review e s) = objs ?s4" "currentRun (startRun_review e s) = currentRun ?s4"
    "runHistory (startRun_review e s) = runHistory ?s4"
    "create_repo_calls (startRun_review e s) = create_repo_calls ?s4"
    by (simp_all add: u create_repo_calls_def toast_def set_status_text_def)
  have v1: "prd_review_section (view (startRun_review e s))"
    by (simp add: u toast_def showToast_def renderReviewSection_def Let_def)
  have v2: "feature_checklist (view (startRun_review e s))
         = map (\<lambda>i. (i, True)) [0..<length (flattenFeatures (res_prd ?pr))]"
    by (simp add: u toast_def showToast_def rendered_checklist)
  have nr: "startTime (new_run (now_start e) (stamp_start e) (Some (now_start e)) (Some api))
            = Some (now_start e)"
    by (simp add: new_run_def)
  have stt: "startTime (objs ?s4 ! ?a) = Some (now_start e)"
    using f(8) o2 nr by simp
  have fc: "featuresCount (objs ?s4 ! ?a) = Some (length (flattenFeatures (res_prd ?pr)))"
    by (simp add: f(7) countFeatures_def flattenFeatures_def length_flattenFeatures_epics)
  have "currentRun (startRun_review e s) = Some ?a"
    "length (objs (startRun_review e s)) = Suc ?a"
    "runHistory (startRun_review e s) = runHistory s"
    "create_repo_calls (startRun_review e s) = create_repo_calls s"
    using ctl_fields [OF f(1)] c2 len2 h2 cr2 f(2) by (simp_all add: g)
  then show ?thesis
    using st el f(5) f(6) fc stt v1 v2 off unfolding g(1) by blast
qed

section \<open>The claims about the review gate and about validation\<close>

lemma sample_idea_title: "title sample_idea = Some ''A todo list for small teams''"
  by (simp add: sample_idea_def buildFallbackEnhancedIdea_def js_trim_def is_space_def Let_def)

lemma flatten_fallback_length: "length (flattenFeatures (res_prd (buildFallbackPRD i))) = 5"
  by (simp add: buildFallbackPRD_def fallback_epics_def flattenFeatures_def or_list_def)

lemma review_app_facts:
  "currentRun review_app = Some 0" "length (objs review_app) = 1"
  "enhancedIdea (objs review_app ! 0) = Some sample_idea"
  "run_prd (objs review_app ! 0) = Some (res_prd (buildFallbackPRD sample_idea))"
  "getSelectedFeatureIndices (view review_app) = [0, 2, 4]"
  "runHistory review_app = []"
  by (simp_all add: review_app_def initial_app_def getSelectedFeatureIndices_def)

text \<open>
  Claim C3: for every PRD tree, selecting with the full index set returns the flattened
  list itself; selecting with any index list returns a subsequence of the flattened list
  (order kept); and after \<^verbatim>\<open>continueAfterReview\<close> the run's \<^verbatim>\<open>featuresCount\<close> is the length of
  the selected list and the run is in the history, also when no box is ticked (the count is
  then 0). With distinct indices in range, as the checklist gives them, that length is the
  number of ticked boxes.
\<close>

theorem selection_roundtrip_and_count:
  assumes "currentRun s = Some a" "a < length (objs s)"
    and "enhancedIdea (objs s ! a) = Some idea" "run_prd (objs s ! a) = Some p"
    and "s' = continueAfterReview e s"
  shows "select_features [0..<length (flattenFeatures p)] (flattenFeatures p) = flattenFeatures p
     \<and> subseq (select_features idx (flattenFeatures p)) (flattenFeatures p)
     \<and> featuresCount (objs s' ! a)
         = Some (length (select_features (getSelectedFeatureIndices (view s)) (flattenFeatures p)))
     \<and> runHistory s' = runHistory s @ [a]
     \<and> (getSelectedFeatureIndices (view s) = [] \<longrightarrow> featuresCount (objs s' ! a) = Some 0)
     \<and> (title idea \<noteq> None \<longrightarrow>
           status (objs s' ! a) = ''success''
         \<and> selectedFeatures (objs s' ! a)
             = Some (select_features (getSelectedFeatureIndices (view s)) (flattenFeatures p)))
     \<and> (distinct (getSelectedFeatureIndices (view s))
          \<and> set (getSelectedFeatureIndices (view s)) \<subseteq> {..<length (flattenFeatures p)} \<longrightarrow>
           featuresCount (objs s' ! a) = Some (length (getSelectedFeatureIndices (view s))))"
proof -
  note r = continueAfterReview_result [OF assms(1-4), of e]
  have "getSelectedFeatureIndices (view s) = [] \<longrightarrow> featuresCount (objs s' ! a) = Some 0"
    using r(2) assms(5) by (simp add: select_features_none)
  moreover have "distinct (getSelectedFeatureIndices (view s))
          \<and> set (getSelectedFeatureIndices (view s)) \<subseteq> {..<length (flattenFeatures p)} \<longrightarrow>
           featuresCount (objs s' ! a) = Some (length (getSelectedFeatureIndices (view s)))"
    using r(2) assms(5) by (simp add: length_select_features_distinct)
  ultimately show ?thesis
    using r(1-4) assms(5) by (simp add: select_features_all select_features_subseq)
qed

theorem selection_roundtrip_and_count_witness:
  "featuresCount (objs (continueAfterReview offline_env review_app) ! 0) = Some 3
   \<and> status (objs (continueAfterReview offline_env review_app) ! 0) = ''success''
   \<and> runHistory (continueAfterReview offline_env review_app) = [0]"
  using selection_roundtrip_and_count [of review_app 0 sample_idea
      "res_prd (buildFallbackPRD sample_idea)" "continueAfterReview offline_env review_app"
      offline_env "[]"]
  by (auto simp add: review_app_facts sample_idea_title flatten_fallback_length)


text \<open>
  Claim C7: when the idea text is empty (or only whitespace), each of the start functions
  returns at once: the one change is the warning toast; no request has been issued, no run
  object created, no stream opened, and the history and its stored copy are as before.
\<close>

theorem empty_idea_rejected:
  assumes "js_trim (idea_input (view s)) = []"
  shows "startRun e s
       = s\<lparr>view := (view s)\<lparr>toasts := toasts (view s)
            @ [(''warning'', ''Missing Input'', ''Please describe your application idea'')]\<rparr>\<rparr>
     \<and> startRunLegacy e s = startRun e s
     \<and> startRun_review e s = startRun e s
     \<and> net (startRun e s) = net s
     \<and> currentRun (startRun e s) = currentRun s
     \<and> objs (startRun e s) = objs s
     \<and> eventSources (startRun e s) = eventSources s
     \<and> runHistory (startRun e s) = runHistory s
     \<and> stored_runHistory (startRun e s) = stored_runHistory s"
  using assms
  by (simp add: startRun_def startRunWithSSE_def startRunLegacy_def startRun_review_def
      run_preflight_empty toast_def showToast_def)

theorem empty_idea_rejected_witness:
  "startRun offline_env (typed_app [])
     = (typed_app [])\<lparr>view := (view (typed_app []))\<lparr>toasts :=
          [(''warning'', ''Missing Input'', ''Please describe your application idea'')]\<rparr>\<rparr>
   \<and> net (startRun offline_env (typed_app [])) = []
   \<and> runHistory (startRun offline_env (typed_app [])) = []"
  using empty_idea_rejected [of "typed_app []" offline_env]
  by (simp add: typed_app_def initial_app_def initial_page_def js_trim_def)

section \<open>The legacy path without a backend\<close>

lemma show_prd_preview_frame [simp]:
  "ctl (show_prd_preview pr s) = ctl s" "objs (show_prd_preview pr s) = objs s"
  "net (show_prd_preview pr s) = net s"
  by (simp_all add: show_prd_preview_def ctl_def)

lemma startRunLegacy_unfold:
  fixes e :: env and api :: bool and i t :: string and s s1 :: app
  assumes "run_preflight e s = Ready api i t s1"
  defines "s2 \<equiv> alloc_run (new_run (now_start e) (stamp_start e) None None) (show_progress_only s1)"
  defines "idea \<equiv> fst (step_enhance e api i t s2)"
  defines "s3 \<equiv> snd (step_enhance e api i t s2)"
  defines "pr \<equiv> fst (step_prd e api idea s3)"
  defines "s4 \<equiv> snd (step_prd e api idea s3)"
  shows "startRunLegacy e s
     = save_to_history (toFixed e)
         (finish_steps e (Some (now_start e)) idea step_features_legacy api (show_prd_preview pr s4))"
  by (simp add: startRunLegacy_def assms Let_def case_prod_unfold)

lemma fallback_idea_title: "title (buildFallbackEnhancedIdea i t) \<noteq> None"
  by (simp add: buildFallbackEnhancedIdea_def Let_def)

lemma countFeatures_fallback: "countFeatures (res_prd (buildFallbackPRD i)) = 5"
  by (simp add: buildFallbackPRD_def fallback_epics_def countFeatures_def or_list_def)

lemma startRunLegacy_offline:
  assumes "js_trim (idea_input (view s)) \<noteq> []" "fst (checkApiServer e) = False"
    "isValidGitHubUsername (githubUsername (settings s))"
  shows "runHistory (startRunLegacy e s) = runHistory s @ [length (objs s)]"
    "status (objs (startRunLegacy e s) ! length (objs s)) = ''success''"
    "featuresCount (objs (startRunLegacy e s) ! length (objs s)) = Some 5"
    "elapsedTime (objs (startRunLegacy e s) ! length (objs s))
       = Some (elapsed_text e (Some (now_start e)))"
    "stored_runHistory (startRunLegacy e s) = history_records (startRunLegacy e s)"
proof -
  let ?a = "length (objs s)"
  let ?i = "js_trim (idea_input (view s))"
  let ?t = "js_trim (tech_preferences (view s))"
  obtain s1 where p: "run_preflight e s = Ready False ?i ?t s1" and q: "quiet s1 = quiet s"
    using run_preflight_offline [OF assms] by blast
  note q1 = quiet_fields [OF q]
  let ?s2 = "alloc_run (new_run (now_start e) (stamp_start e) None None) (show_progress_only s1)"
  let ?idea = "fst (step_enhance e False ?i ?t ?s2)"
  let ?s3 = "snd (step_enhance e False ?i ?t ?s2)"
  let ?pr = "fst (step_prd e False ?idea ?s3)"
  let ?s4 = "snd (step_prd e False ?idea ?s3)"
  let ?s5 = "show_prd_preview ?pr ?s4"
  let ?s6 = "finish_steps e (Some (now_start e)) ?idea step_features_legacy False ?s5"
  have c2: "currentRun ?s2 = Some ?a" and l2: "?a < length (objs ?s2)"
    and h2: "runHistory ?s2 = runHistory s"
    using q1 by (simp_all add: alloc_run_def show_progress_only_def)
  note f = first_two_steps [OF c2 l2, of e False ?i ?t]
  have id: "?idea = buildFallbackEnhancedIdea ?i ?t" and pr: "?pr = buildFallbackPRD ?idea"
    by (simp_all add: step_enhance_offline step_prd_offline)
  obtain ttl where ttl: "title ?idea = Some ttl"
    using fallback_idea_title [of ?i ?t] id by auto
  have c5: "currentRun ?s5 = Some ?a" and l5: "?a < length (objs ?s5)"
    and h5: "runHistory ?s5 = runHistory s"
    using ctl_fields [OF f(1)] c2 l2 h2 by (simp_all add: ctl_fields [OF show_prd_preview_frame(1)])
  have "countFeatures (res_prd ?pr) = 5"
    by (simp only: pr countFeatures_fallback)
  then have fc4: "featuresCount (objs ?s4 ! ?a) = Some 5"
    by (simp only: f(7))
  have fc5: "featuresCount (objs ?s5 ! ?a) = Some 5"
    by (simp only: show_prd_preview_frame(2) fc4)
  note ok = finish_steps_success [OF c5 l5 ttl, of step_features_legacy e "Some (now_start e)" False,
      OF steps_after_frame(1) steps_after_frame(2)]
  have c6: "ctl ?s6 = ctl ?s5"
    by (rule finish_steps_frame) (simp add: steps_after_frame)
  have cur6: "currentRun ?s6 = Some ?a" and h6: "runHistory ?s6 = runHistory s"
    using ctl_fields [OF c6] c5 h5 by simp_all
  note sv = save_to_history_result [OF cur6, of "toFixed e"]
  note u = startRunLegacy_unfold [OF p]
  show "runHistory (startRunLegacy e s) = runHistory s @ [length (objs s)]"
    by (simp add: u sv h6)
  show "status (objs (startRunLegacy e s) ! length (objs s)) = ''success''"
    by (simp add: u sv ok)
  show "featuresCount (objs (startRunLegacy e s) ! length (objs s)) = Some 5"
    by (simp add: u sv ok fc4)
  show "elapsedTime (objs (startRunLegacy e s) ! length (objs s))
       = Some (elapsed_text e (Some (now_start e)))"
    by (simp add: u sv ok)
  show "stored_runHistory (startRunLegacy e s) = history_records (startRunLegacy e s)"
    by (simp add: u sv)
qed

lemma startRun_falls_back:
  assumes "20 \<le> length (js_trim (idea_input (view s)))" "run_reply e = Failed"
  shows "startRun e s
     = startRunLegacy e
         (log_error ''SSE pipeline failed, falling back to step-by-step mode:''
            (log_call
               (POST_run
                  \<lparr> rq_authorization = authToken s,
                    rq_gemini_key = or_str (geminiKey (settings s)) [],
                    rq_github_token = or_str (githubToken (settings s)) [],
                    rq_github_username = or_str (githubUsername (settings s)) [],
                    rq_app_idea = js_trim (idea_input (view s)),
                    rq_tech_preferences = (if js_trim (tech_preferences (view s)) = [] then None
                                           else Some (js_trim (tech_preferences (view s)))),
                    rq_private = (privateRepos (settings s) \<noteq> Some False) \<rparr>)
               (alloc_run (new_run (now_sse e) (stamp_sse e) None None) (show_progress_only s))))"
proof -
  have "js_trim (idea_input (view s)) \<noteq> []"
    using assms(1) by auto
  then show ?thesis
    using assms
    by (simp add: startRun_def startRunWithSSE_def Let_def alloc_run_def show_progress_only_def)
qed

lemma startRun_offline:
  assumes "20 \<le> length (js_trim (idea_input (view s)))" "run_reply e = Failed"
    "fst (checkApiServer e) = False" "isValidGitHubUsername (githubUsername (settings s))"
  shows "runHistory (startRun e s) = runHistory s @ [Suc (length (objs s))]"
    "status (objs (startRun e s) ! Suc (length (objs s))) = ''success''"
    "featuresCount (objs (startRun e s) ! Suc (length (objs s))) = Some 5"
proof -
  let ?s2 = "log_error ''SSE pipeline failed, falling back to step-by-step mode:''
            (log_call
               (POST_run
                  \<lparr> rq_authorization = authToken s,
                    rq_gemini_key = or_str (geminiKey (settings s)) [],
                    rq_github_token = or_str (githubToken (settings s)) [],
                    rq_github_username = or_str (githubUsername (settings s)) [],
                    rq_app_idea = js_trim (idea_input (view s)),
                    rq_tech_preferences = (if js_trim (tech_preferences (view s)) = [] then None
                                           else Some (js_trim (tech_preferences (view s)))),
                    rq_private = (privateRepos (settings s) \<noteq> Some False) \<rparr>)
               (alloc_run (new_run (now_sse e) (stamp_sse e) None None) (show_progress_only s)))"
  have v: "idea_input (view ?s2) = idea_input (view s)" "settings ?s2 = settings s"
    "runHistory ?s2 = runHistory s" "length (objs ?s2) = Suc (length (objs s))"
    by (simp_all add: log_error_def log_call_def alloc_run_def show_progress_only_def)
  have i: "js_trim (idea_input (view ?s2)) \<noteq> []"
    using assms(1) v(1) by auto
  have n: "isValidGitHubUsername (githubUsername (settings ?s2))"
    using assms(4) v(2) by simp
  note r = startRunLegacy_offline [OF i assms(3) n]
  show "runHistory (startRun e s) = runHistory s @ [Suc (length (objs s))]"
    "status (objs (startRun e s) ! Suc (length (objs s))) = ''success''"
    "featuresCount (objs (startRun e s) ! Suc (length (objs s))) = Some 5"
    using r(1-3) unfolding startRun_falls_back [OF assms(1,2)] v(3,4) by simp_all
qed

lemma default_username_valid: "isValidGitHubUsername (Some ''jacattac314'')"
  by (simp add: isValidGitHubUsername_def is_alnum_def in_range_def)

lemma sample_idea_trim:
  "js_trim ''A todo list for small teams'' = ''A todo list for small teams''"
  by (simp add: js_trim_def is_space_def)

text \<open>
  Claim C5: for every enhanced idea, \<^verbatim>\<open>buildFallbackPRD\<close> returns the four epics Project
  Foundation, Core Features, Data Layer and Testing with 5 features in all, and its result
  depends on the idea's title and description only; the title that
  \<^verbatim>\<open>buildFallbackEnhancedIdea\<close> builds is always there. So a run of the legacy path with the
  backend unreachable (a non-empty idea and a valid username, which is what lets a run
  start) ends in the history with \<^verbatim>\<open>featuresCount\<close> 5 and status \<^verbatim>\<open>success\<close>, also when it
  is reached from \<^verbatim>\<open>startRun\<close> after the start request failed. Both builders are functions of
  their arguments with no error result.
\<close>

theorem fallback_prd_five_features:
  assumes "js_trim (idea_input (view s)) \<noteq> []" "fst (checkApiServer e) = False"
    and "isValidGitHubUsername (githubUsername (settings s))"
  shows "epics (res_prd (buildFallbackPRD i)) = Some fallback_epics
     \<and> map epic_name fallback_epics
         = [''Project Foundation'', ''Core Features'', ''Data Layer'', ''Testing'']
     \<and> countFeatures (res_prd (buildFallbackPRD i)) = 5
     \<and> length (flattenFeatures (res_prd (buildFallbackPRD i))) = 5
     \<and> (title i = title j \<and> idea_description i = idea_description j \<longrightarrow>
           buildFallbackPRD i = buildFallbackPRD j)
     \<and> title (buildFallbackEnhancedIdea appIdea techPrefs) \<noteq> None
     \<and> runHistory (startRunLegacy e s) = runHistory s @ [length (objs s)]
     \<and> featuresCount (last (history_records (startRunLegacy e s))) = Some 5
     \<and> status (last (history_records (startRunLegacy e s))) = ''success''
     \<and> (20 \<le> length (js_trim (idea_input (view s))) \<and> run_reply e = Failed \<longrightarrow>
           featuresCount (last (history_records (startRun e s))) = Some 5
         \<and> status (last (history_records (startRun e s))) = ''success'')"
proof -
  note r = startRunLegacy_offline [OF assms]
  have l: "featuresCount (last (history_records (startRunLegacy e s))) = Some 5"
    "status (last (history_records (startRunLegacy e s))) = ''success''"
    using r(1-3) by (simp_all add: history_records_def)
  have f: "20 \<le> length (js_trim (idea_input (view s))) \<and> run_reply e = Failed \<longrightarrow>
           featuresCount (last (history_records (startRun e s))) = Some 5
         \<and> status (last (history_records (startRun e s))) = ''success''"
  proof (intro impI, elim conjE)
    assume a: "20 \<le> length (js_trim (idea_input (view s)))" "run_reply e = Failed"
    note o = startRun_offline [OF a assms(2,3)]
    show "featuresCount (last (history_records (startRun e s))) = Some 5
         \<and> status (last (history_records (startRun e s))) = ''success''"
      using o by (simp add: history_records_def)
  qed
  have d: "title i = title j \<and> idea_description i = idea_description j \<longrightarrow>
           buildFallbackPRD i = buildFallbackPRD j"
    by (simp add: buildFallbackPRD_def)
  have n: "map epic_name fallback_epics
         = [''Project Foundation'', ''Core Features'', ''Data Layer'', ''Testing'']"
    by (simp add: fallback_epics_def)
  have e1: "epics (res_prd (buildFallbackPRD i)) = Some fallback_epics"
    by (simp add: buildFallbackPRD_def)
  show ?thesis
    using e1 n countFeatures_fallback [of i] flatten_fallback_length [of i] d
      fallback_idea_title [of appIdea techPrefs] r(1) l f
    by blast
qed

theorem fallback_prd_five_features_witness:
  "featuresCount (last (history_records
      (startRunLegacy offline_env (typed_app ''A todo list for small teams'')))) = Some 5
   \<and> status (last (history_records
      (startRunLegacy offline_env (typed_app ''A todo list for small teams'')))) = ''success''
   \<and> status (last (history_records
      (startRun offline_env (typed_app ''A todo list for small teams'')))) = ''success''
   \<and> buildFallbackPRD sample_idea
      = buildFallbackPRD (sample_idea\<lparr>target_users := None, key_value_props := []\<rparr>)"
  using fallback_prd_five_features [of "typed_app ''A todo list for small teams''" offline_env
      sample_idea "sample_idea\<lparr>target_users := None, key_value_props := []\<rparr>" "[]" "[]"]
  by (simp add: typed_app_def initial_app_def initial_page_def default_settings_def
      default_username_valid sample_idea_trim offline_env_def checkApiServer_def)

section \<open>The dashboard figures\<close>

lemma show_nat_0: "show_nat 0 = ''0''"
  by (simp add: show_nat.simps digit_char_def)

lemma finished_run_fields:
  "status (finished_run t) = ''success''" "featuresCount (finished_run t) = Some 5"
  "elapsedTime (finished_run t) = Some t"
  by (simp_all add: finished_run_def)

lemma elapsed_sum_two:
  "elapsed_sum [finished_run ''1.0'', finished_run ''2.0''] = Str ''01.02.0''"
  by (simp add: elapsed_sum_def elapsed_operand_def finished_run_fields truthy_str_def show_nat_0)

lemma StringToNumber_two_dots: "StringToNumber ''01.02.0'' = NaN"
  by (simp add: StringToNumber_def is_digit_def in_range_def)

lemma StringToNumber_one_dot: "StringToNumber ''01.5'' = Fin (3 / 2)"
  by (simp add: StringToNumber_def is_digit_def in_range_def digits_value_def)

text \<open>
  Claim C4, at two successful runs with the elapsed times \<^verbatim>\<open>'1.0'\<close> and \<^verbatim>\<open>'2.0'\<close> (strings,
  as \<^verbatim>\<open>toFixed(1)\<close> returns them): the total, the number of successes and the feature total
  are as the claim says, but the average that the dashboard shows is \<^verbatim>\<open>NaN\<close>, since the sum
  is the text \<^verbatim>\<open>01.02.0\<close>.
\<close>

theorem dashboard_average_of_two_runs:
  "avg_time (dashboard_of tf [finished_run ''1.0'', finished_run ''2.0'']) = ''NaNs''
   \<and> total_runs (dashboard_of tf [finished_run ''1.0'', finished_run ''2.0'']) = 2
   \<and> successful_runs (dashboard_of tf [finished_run ''1.0'', finished_run ''2.0'']) = 2
   \<and> total_features (dashboard_of tf [finished_run ''1.0'', finished_run ''2.0'']) = 10"
  by (simp add: dashboard_of_def Let_def elapsed_sum_two js_divide_def ToNumber_def
      StringToNumber_two_dots toFixed1_def finished_run_fields or_num_def truthy_num_def)

lemma dashboard_counts:
  "total_runs (dashboard_of tf rs) = length rs"
  "successful_runs (dashboard_of tf rs) = length (filter (\<lambda>r. status r = ''success'') rs)"
  "total_features (dashboard_of tf rs) = sum_list (map (\<lambda>r. or_num (featuresCount r) 0) rs)"
  "recent_runs (dashboard_of tf rs) = rev (drop (length rs - 5) rs)"
proof -
  have "foldl (\<lambda>sum r. sum + or_num (featuresCount r) 0) n rs
      = n + sum_list (map (\<lambda>r. or_num (featuresCount r) 0) rs)" for n
    by (induction rs arbitrary: n) simp_all
  from this [of 0] show "total_features (dashboard_of tf rs) = sum_list (map (\<lambda>r. or_num (featuresCount r) 0) rs)"
    by (simp add: dashboard_of_def Let_def)
qed (simp_all add: dashboard_of_def Let_def)

lemma dashboard_empty:
  "dashboard_of tf [] = \<lparr> total_runs = 0, successful_runs = 0, avg_time = ''0s'',
                          total_features = 0, recent_runs = [] \<rparr>"
  by (simp add: dashboard_of_def)

lemma dashboard_one_run:
  "avg_time (dashboard_of tf [finished_run ''1.5'']) = tf (3 / 2) @ ''s''"
  by (simp add: dashboard_of_def Let_def elapsed_sum_def elapsed_operand_def finished_run_fields
      truthy_str_def show_nat_0 js_divide_def ToNumber_def StringToNumber_one_dot toFixed1_def)

section \<open>Events before the end of the stream, and what follows it\<close>

lemma pipeline_other_step:
  assumes "ev_step ev \<noteq> ''pipeline''"
  shows "sse_pipeline tf now k rid t0 ev s = Done s"
  using assms by (simp add: sse_pipeline_def)

lemma onmessage_frame:
  assumes "ev_step ev \<noteq> ''pipeline''"
  shows "run_frame (onmessage tf now k rid t0 (Event ev) s) = run_frame s"
proof -
  have p: "\<And>s. run_frame (state_of (sse_pipeline tf now k rid t0 ev s)) = run_frame s"
    by (simp add: pipeline_other_step [OF assms])
  show ?thesis
    by (simp add: onmessage_state [where P = run_frame, OF run_frame_console] onmessage_try_def
        frame_chain [where P = run_frame, OF p]
        frame_chain [where P = run_frame, OF merge_data_frame]
        frame_chain [where P = run_frame, OF prd_preview_frame]
        frame_chain [where P = run_frame, OF status_text_frame]
        frame_chain [where P = run_frame, OF progress_frame] step_frame)
qed

lemma onmessage_malformed: "onmessage tf now k rid t0 Malformed s = s\<lparr>console := console s @ [''SSE parse error:'']\<rparr>"
  by (simp add: onmessage_def onmessage_try_def)

lemma run_frame_fields:
  assumes "run_frame s1 = run_frame s"
  shows "currentRun s1 = currentRun s" "runHistory s1 = runHistory s"
    "eventSources s1 = eventSources s" "net s1 = net s" "stored_runHistory s1 = stored_runHistory s"
    "map status (objs s1) = map status (objs s)" "map elapsedTime (objs s1) = map elapsedTime (objs s)"
    "map run_error (objs s1) = map run_error (objs s)" "length (objs s1) = length (objs s)"
    "create_repo_calls s1 = create_repo_calls s"
  using assms by (simp_all add: run_frame_def create_repo_calls_def)

lemma deliver_frame:
  assumes "ev_step ev \<noteq> ''pipeline''"
  shows "run_frame (deliver tf now k (Event ev) s) = run_frame s"
  by (simp add: deliver_def onmessage_frame [OF assms])


lemma on_final_run_data_keeps:
  "map elapsedTime (objs (on_final_run_data rep s)) = map elapsedTime (objs s)"
  "map status (objs (on_final_run_data rep s)) = map status (objs s)"
  "runHistory (on_final_run_data rep s) = runHistory s"
  by (simp_all add: on_final_run_data_def set_run_def merge_result_def Let_def map_list_update_same
      split: option.splits reply.splits)




subsection \<open>When no stream is open\<close>









subsection \<open>The start of a streamed run\<close>








section \<open>A failed pipeline in the history\<close>

lemma streaming_app_facts:
  "eventSources streaming_app = [\<lparr> stream_run_id = ''r1'', stream_startTime = 0, closed = False \<rparr>]"
  "currentRun streaming_app = Some 0" "length (objs streaming_app) = 1"
  "runHistory streaming_app = []"
  "status (objs streaming_app ! 0) = ''running''"
  "elapsedTime (objs streaming_app ! 0) = None"
  "map status (objs streaming_app) = [''running'']"
  "only_open 0 streaming_app"
  by (simp_all add: streaming_app_def initial_app_def new_run_def only_open_def)






section \<open>When the elapsed time is computed\<close>




subsection \<open>The elapsed times of the other run objects\<close>























section \<open>Who asks for the repository\<close>

lemma pipeline_create_repo_calls:
  "create_repo_calls (state_of (sse_pipeline tf now k rid t0 ev s)) = create_repo_calls s"
  by (simp add: sse_pipeline_def sse_pipeline_completed_def sse_pipeline_failed_def assign_run_def
      close_stream_def save_to_history_def updateDashboard_def save_history_def push_current_def
      create_repo_calls_def is_create_repo_def split: option.splits)

lemma stage_create_repo_calls:
  "create_repo_calls (state_of (sse_update_step ev s)) = create_repo_calls s"
  "create_repo_calls (state_of (sse_update_progress ev s)) = create_repo_calls s"
  "create_repo_calls (state_of (sse_status_text ev s)) = create_repo_calls s"
  "create_repo_calls (state_of (sse_prd_preview ev s)) = create_repo_calls s"
  "create_repo_calls (state_of (sse_merge_data ev s)) = create_repo_calls s"
  by (simp_all add: run_frame_fields(10) [OF step_frame] run_frame_fields(10) [OF progress_frame]
      run_frame_fields(10) [OF status_text_frame] run_frame_fields(10) [OF prd_preview_frame]
      run_frame_fields(10) [OF merge_data_frame])

lemma onmessage_create_repo_calls:
  "create_repo_calls (onmessage tf now k rid t0 msg s) = create_repo_calls s"
proof (cases msg)
  case Malformed
  then show ?thesis
    by (simp add: onmessage_malformed create_repo_calls_def)
next
  case (Event ev)
  have c: "\<And>s c. create_repo_calls (s\<lparr>console := c\<rparr>) = create_repo_calls s"
    by (simp add: create_repo_calls_def)
  show ?thesis
    unfolding Event
    by (simp add: onmessage_state [where P = create_repo_calls, OF c] onmessage_try_def
        frame_chain [where P = create_repo_calls, OF pipeline_create_repo_calls]
        frame_chain [where P = create_repo_calls, OF stage_create_repo_calls(5)]
        frame_chain [where P = create_repo_calls, OF stage_create_repo_calls(4)]
        frame_chain [where P = create_repo_calls, OF stage_create_repo_calls(3)]
        frame_chain [where P = create_repo_calls, OF stage_create_repo_calls(2)]
        stage_create_repo_calls(1))
qed

lemma merge_data_view: "view (state_of (sse_merge_data ev s)) = view s"
proof -
  have a: "view (state_of (assign_if b f s)) = view s" for b f s
    by (simp add: assign_if_def assign_run_def split: option.splits)
  show ?thesis
    unfolding sse_merge_data_def
    by (simp add: frame_chain [where P = view, OF a] a)
qed

lemma prd_preview_shown:
  assumes "ev_step ev = ''generate_prd''" "ev_status ev = ''completed''"
    "truthy_str (data_field prd_markdown ev)"
  shows "prd_preview_section (view (onmessage tf now k rid t0 (Event ev) s))"
    "prd_preview_content (view (onmessage tf now k rid t0 (Event ev) s))
       = escapeHtml (the (data_field prd_markdown ev))"
proof -
  let ?P = "\<lambda>s. (prd_preview_section (view s), prd_preview_content (view s))"
  have c: "\<And>s c. ?P (s\<lparr>console := c\<rparr>) = ?P s"
    by simp
  have p: "\<And>s. ?P (state_of (sse_pipeline tf now k rid t0 ev s)) = ?P s"
    using assms(1) by (simp add: pipeline_other_step)
  have m: "\<And>s. ?P (state_of (sse_merge_data ev s)) = ?P s"
    by (simp add: merge_data_view)
  have "?P (onmessage tf now k rid t0 (Event ev) s)
      = ?P (state_of (and_then (and_then (and_then (sse_update_step ev s) (sse_update_progress ev))
            (sse_status_text ev)) (sse_prd_preview ev)))"
    by (simp only: onmessage_state [where P = ?P, OF c] onmessage_try_def message.case
        frame_chain [where P = ?P, OF p] frame_chain [where P = ?P, OF m])
  also have "\<dots> = (True, escapeHtml (the (data_field prd_markdown ev)))"
    using assms
    by (simp add: sse_update_step_def get_stepMapping_known step_call_def updateStepStatus_def
        step_ids_def sse_update_progress_def get_stepProgress_known updateProgress_def
        sse_status_text_def sse_prd_preview_def Let_def)
  finally show "prd_preview_section (view (onmessage tf now k rid t0 (Event ev) s))"
    "prd_preview_content (view (onmessage tf now k rid t0 (Event ev) s))
       = escapeHtml (the (data_field prd_markdown ev))"
    by simp_all
qed

lemma startRun_review_no_create_repo:
  "create_repo_calls (startRun_review e s) = create_repo_calls s"
proof (cases "run_preflight e s")
  case (Rejected s1)
  then show ?thesis
    using quiet_fields(6) [OF run_preflight_quiet, of e s] by (simp add: startRun_review_def)
next
  case (Ready api i t s1)
  then show ?thesis
    using startRun_review_paused [OF Ready] by blast
qed

lemma after_github_create_repo_calls [simp]:
  "create_repo_calls (step_features_review s) = create_repo_calls s"
  "create_repo_calls (step_features_legacy s) = create_repo_calls s"
  "create_repo_calls (step_implement s) = create_repo_calls s"
  "create_repo_calls (step_publish e idea s) = create_repo_calls s"
  "create_repo_calls (complete_run e st s) = create_repo_calls s"
  "create_repo_calls (fail_run m s) = create_repo_calls s"
  "create_repo_calls (save_to_history tf s) = create_repo_calls s"
  by (simp_all add: step_features_review_def step_features_legacy_def step_implement_def
      step_publish_def complete_run_def fail_run_def Let_def save_to_history_def
      updateDashboard_def save_history_def push_current_def create_repo_calls_def
      split: reply.splits option.splits)

lemma step_github_create_repo_call:
  assumes "title idea = Some t" "api" "truthy_str (githubToken (settings s))"
  shows "create_repo_calls (state_of (step_github e api idea s))
     = create_repo_calls s
       @ [POST_create_repo (githubToken (settings s)) (repoName_of t)
            (take 200 (or_str (idea_description idea) [])) (privateRepos (settings s) \<noteq> Some False)]"
  using assms by (simp add: step_github_def Let_def split: reply.splits)

lemma finish_steps_create_repo_calls:
  "create_repo_calls (finish_steps e st idea step_features_review api s)
     = create_repo_calls (state_of (step_github e api idea s))"
  by (cases "step_github e api idea s") (simp_all add: finish_steps_def)

lemma continueAfterReview_create_repo_call:
  assumes "currentRun s = Some a" "enhancedIdea (objs s ! a) = Some idea"
    "run_prd (objs s ! a) = Some p" "title idea = Some t" "apiRunning (objs s ! a) = Some True"
    "truthy_str (githubToken (settings s))"
  shows "create_repo_calls (continueAfterReview e s)
     = create_repo_calls s
       @ [POST_create_repo (githubToken (settings s)) (repoName_of t)
            (take 200 (or_str (idea_description idea) [])) (privateRepos (settings s) \<noteq> Some False)]"
proof -
  let ?f = "\<lambda>x. x\<lparr>featuresCount := Some (length (select_features
                                    (getSelectedFeatureIndices (view s)) (flattenFeatures p))),
                                  selectedFeatures := Some (select_features
                                    (getSelectedFeatureIndices (view s)) (flattenFeatures p))\<rparr>"
  let ?s2 = "set_status_text (Text ''Continuing build...'')
               ((set_run ?f s)\<lparr>view := (view (set_run ?f s))\<lparr>prd_review_section := False\<rparr>\<rparr>)"
  have k: "settings ?s2 = settings s" "create_repo_calls ?s2 = create_repo_calls s"
    by (simp_all add: set_status_text_def set_run_def create_repo_calls_def assms(1))
  have tok: "truthy_str (githubToken (settings ?s2))"
    using assms(6) by (simp only: k(1))
  have "create_repo_calls (continueAfterReview e s)
      = create_repo_calls (state_of (step_github e True idea ?s2))"
    by (simp add: continueAfterReview_unfold [OF assms(1-3)] finish_steps_create_repo_calls assms(5))
  also have "\<dots> = create_repo_calls ?s2
       @ [POST_create_repo (githubToken (settings ?s2)) (repoName_of t)
            (take 200 (or_str (idea_description idea) [])) (privateRepos (settings ?s2) \<noteq> Some False)]"
    by (rule step_github_create_repo_call [OF assms(4) _ tok]) simp
  finally show ?thesis
    by (simp only: k)
qed

section \<open>The PRD event and the review pause\<close>

lemma prd_event_fields:
  "ev_step prd_event = ''generate_prd''" "ev_status prd_event = ''completed''"
  "truthy_str (data_field prd_markdown prd_event)" "ev_step prd_event \<noteq> ''pipeline''"
  by (simp_all add: prd_event_def data_field_def truthy_str_def)

text \<open>
  Claim C1 says that the controller pauses for review when the PRD event has been processed
  and advances to the repository step only after a resume. In the stream, the run is still
  \<^verbatim>\<open>running\<close> after the PRD event, and the \<^verbatim>\<open>create_repo\<close> event that follows is handled
  with nothing in between: the repository step shows completed and the progress is 50.
\<close>

theorem stream_does_not_pause_for_review:
  "map status (objs (deliver (\<lambda>q. ''1.5'') 100 0 (Event prd_event) streaming_app)) = [''running'']
   \<and> fst (step_view (view (process_events (\<lambda>q. ''1.5'')
            [(100, 0, Event prd_event),
             (200, 0, Event (sample_event ''create_repo'' ''completed'' ''Repository created''))]
            streaming_app)) ''step-github'') = ''completed''
   \<and> overall_progress (view (process_events (\<lambda>q. ''1.5'')
            [(100, 0, Event prd_event),
             (200, 0, Event (sample_event ''create_repo'' ''completed'' ''Repository created''))]
            streaming_app)) = 50"
proof -
  let ?tf = "\<lambda>q::rat. ''1.5''"
  let ?s1 = "deliver ?tf 100 0 (Event prd_event) streaming_app"
  let ?ev = "sample_event ''create_repo'' ''completed'' ''Repository created''"
  have f: "run_frame ?s1 = run_frame streaming_app"
    by (rule deliver_frame) (rule prd_event_fields(4))
  have st: "map status (objs ?s1) = [''running'']"
    using run_frame_fields(6) [OF f] by (simp add: streaming_app_facts)
  have es: "eventSources ?s1 = [\<lparr> stream_run_id = ''r1'', stream_startTime = 0, closed = False \<rparr>]"
    using run_frame_fields(3) [OF f] by (simp add: streaming_app_facts)
  have p: "process_events ?tf [(100, 0, Event prd_event), (200, 0, Event ?ev)] streaming_app
      = onmessage ?tf 200 0 ''r1'' 0 (Event ?ev) ?s1"
    by (simp add: deliver_def [of ?tf 200] es)
  have "gauge (state_of (and_then (sse_update_step ?ev ?s1) (sse_update_progress ?ev)))
      = ((step_view (view ?s1))(''step-github'' := (''completed'', check_mark @ '' Repository created'')), 50)"
    by (simp add: sample_event_def sse_update_step_def get_stepMapping_known
        step_call_def updateStepStatus_def step_ids_def sse_update_progress_def
        get_stepProgress_known updateProgress_def Let_def or_str_def truthy_str_def gauge_def)
  then have g: "gauge (onmessage ?tf 200 0 ''r1'' 0 (Event ?ev) ?s1)
      = ((step_view (view ?s1))(''step-github'' := (''completed'', check_mark @ '' Repository created'')), 50)"
    by (simp only: onmessage_gauge)
  show ?thesis
    using st g unfolding p by (simp add: gauge_def)
qed

lemma online_review_app_facts:
  "currentRun online_review_app = Some 0"
  "enhancedIdea (objs online_review_app ! 0) = Some sample_idea"
  "run_prd (objs online_review_app ! 0) = Some (res_prd (buildFallbackPRD sample_idea))"
  "apiRunning (objs online_review_app ! 0) = Some True"
  "truthy_str (githubToken (settings online_review_app))"
  "create_repo_calls online_review_app = []"
  "githubToken (settings online_review_app) = Some ''ghp_token''"
  "privateRepos (settings online_review_app) = None"
  by (simp_all add: online_review_app_def review_app_def initial_app_def default_settings_def
      truthy_str_def create_repo_calls_def)

text \<open>
  Claim C1 as amended: the stream handler answers a completed \<^verbatim>\<open>generate_prd\<close> event that
  carries PRD text by showing the PRD preview; the run keeps its status, the stream stays
  open and the history is untouched, and for no message does the handler issue a
  \<^verbatim>\<open>POST /api/create-repo\<close>. In the review-gate version \<^verbatim>\<open>startRun\<close> issues no such request
  either and, when its checks pass, ends with the review section shown and the new run
  \<^verbatim>\<open>running\<close> and not in the history; the request is issued by \<^verbatim>\<open>continueAfterReview\<close>
  (when the run found the backend running and a GitHub token is set).
\<close>

theorem prd_event_previews_and_review_start_pauses:
  assumes "ev_step ev = ''generate_prd''" "ev_status ev = ''completed''"
    and "truthy_str (data_field prd_markdown ev)"
  shows "prd_preview_section (view (onmessage tf now k rid t0 (Event ev) s))
     \<and> map status (objs (onmessage tf now k rid t0 (Event ev) s)) = map status (objs s)
     \<and> eventSources (onmessage tf now k rid t0 (Event ev) s) = eventSources s
     \<and> runHistory (onmessage tf now k rid t0 (Event ev) s) = runHistory s
     \<and> (\<forall>msg t. create_repo_calls (onmessage tf t k rid t0 msg s) = create_repo_calls s)
     \<and> create_repo_calls (startRun_review e s) = create_repo_calls s
     \<and> (\<forall>api i t s1. run_preflight e s = Ready api i t s1 \<longrightarrow>
            currentRun (startRun_review e s) = Some (length (objs s))
          \<and> status (objs (startRun_review e s) ! length (objs s)) = ''running''
          \<and> prd_review_section (view (startRun_review e s))
          \<and> runHistory (startRun_review e s) = runHistory s)
     \<and> (\<forall>a idea p t. currentRun s = Some a \<and> enhancedIdea (objs s ! a) = Some idea
            \<and> run_prd (objs s ! a) = Some p \<and> title idea = Some t
            \<and> apiRunning (objs s ! a) = Some True \<and> truthy_str (githubToken (settings s)) \<longrightarrow>
            create_repo_calls (continueAfterReview e s)
            = create_repo_calls s
              @ [POST_create_repo (githubToken (settings s)) (repoName_of t)
                   (take 200 (or_str (idea_description idea) []))
                   (privateRepos (settings s) \<noteq> Some False)])"
proof -
  have n: "ev_step ev \<noteq> ''pipeline''"
    using assms(1) by simp
  note f = run_frame_fields [OF onmessage_frame [OF n, of tf now k rid t0 s]]
  have review: "\<forall>api i t s1. run_preflight e s = Ready api i t s1 \<longrightarrow>
            currentRun (startRun_review e s) = Some (length (objs s))
          \<and> status (objs (startRun_review e s) ! length (objs s)) = ''running''
          \<and> prd_review_section (view (startRun_review e s))
          \<and> runHistory (startRun_review e s) = runHistory s"
    using startRun_review_paused by blast
  have resume: "\<forall>a idea p t. currentRun s = Some a \<and> enhancedIdea (objs s ! a) = Some idea
            \<and> run_prd (objs s ! a) = Some p \<and> title idea = Some t
            \<and> apiRunning (objs s ! a) = Some True \<and> truthy_str (githubToken (settings s)) \<longrightarrow>
            create_repo_calls (continueAfterReview e s)
            = create_repo_calls s
              @ [POST_create_repo (githubToken (settings s)) (repoName_of t)
                   (take 200 (or_str (idea_description idea) []))
                   (privateRepos (settings s) \<noteq> Some False)]"
    using continueAfterReview_create_repo_call by blast
  show ?thesis
    using prd_preview_shown(1) [OF assms] f(6) f(3) f(2) onmessage_create_repo_calls
      startRun_review_no_create_repo review resume
    by blast
qed

theorem prd_event_previews_and_review_start_pauses_witness:
  "prd_preview_section (view (onmessage (\<lambda>q. ''1.5'') 100 0 ''r1'' 0 (Event prd_event) streaming_app))
   \<and> create_repo_calls (onmessage (\<lambda>q. ''1.5'') 100 0 ''r1'' 0 (Event prd_event) streaming_app) = []
   \<and> prd_review_section (view (startRun_review offline_env (typed_app ''A todo list for small teams'')))
   \<and> create_repo_calls (startRun_review offline_env (typed_app ''A todo list for small teams'')) = []
   \<and> length (create_repo_calls (continueAfterReview online_env online_review_app)) = 1"
proof -
  let ?tf = "\<lambda>q::rat. ''1.5''"
  let ?typed = "typed_app ''A todo list for small teams''"
  note a = prd_event_previews_and_review_start_pauses [OF prd_event_fields(1-3),
      of ?tf 100 0 "''r1''" 0 streaming_app offline_env]
  note b = prd_event_previews_and_review_start_pauses [OF prd_event_fields(1-3),
      of ?tf 100 0 "''r1''" 0 ?typed offline_env]
  note c = prd_event_previews_and_review_start_pauses [OF prd_event_fields(1-3),
      of ?tf 100 0 "''r1''" 0 online_review_app online_env]
  have 1: "prd_preview_section (view (onmessage ?tf 100 0 ''r1'' 0 (Event prd_event) streaming_app))"
    using a by blast
  have "create_repo_calls (onmessage ?tf 100 0 ''r1'' 0 (Event prd_event) streaming_app)
      = create_repo_calls streaming_app"
    using a by blast
  then have 2: "create_repo_calls (onmessage ?tf 100 0 ''r1'' 0 (Event prd_event) streaming_app) = []"
    by (simp add: create_repo_calls_def streaming_app_def initial_app_def)
  have i: "js_trim (idea_input (view ?typed)) \<noteq> []" "fst (checkApiServer offline_env) = False"
    "isValidGitHubUsername (githubUsername (settings ?typed))"
    by (simp_all add: typed_app_def initial_app_def initial_page_def default_settings_def
      default_username_valid sample_idea_trim offline_env_def checkApiServer_def)
  obtain s1 where "run_preflight offline_env ?typed
      = Ready False (js_trim (idea_input (view ?typed))) (js_trim (tech_preferences (view ?typed))) s1"
    using run_preflight_offline [OF i] by blast
  then have 3: "prd_review_section (view (startRun_review offline_env ?typed))"
    using b by blast
  have "create_repo_calls (startRun_review offline_env ?typed) = create_repo_calls ?typed"
    using b by blast
  then have 4: "create_repo_calls (startRun_review offline_env ?typed) = []"
    by (simp add: create_repo_calls_def typed_app_def initial_app_def)
  have "create_repo_calls (continueAfterReview online_env online_review_app)
      = create_repo_calls online_review_app
        @ [POST_create_repo (githubToken (settings online_review_app))
             (repoName_of ''A todo list for small teams'')
             (take 200 (or_str (idea_description sample_idea) []))
             (privateRepos (settings online_review_app) \<noteq> Some False)]"
    using c online_review_app_facts(1-5) sample_idea_title by blast
  then have 5: "length (create_repo_calls (continueAfterReview online_env online_review_app)) = 1"
    by (simp add: online_review_app_facts(6))
  show ?thesis
    using 1 2 3 4 5 by blast
qed

section \<open>Steps that the registry does not know\<close>

lemma unknown_step_completes:
  assumes "ev_step ev \<notin> set (map fst stepProgress)" "ev_step ev \<notin> set object_prototype_names"
    "currentRun s \<noteq> None"
  shows "\<exists>s1. onmessage_try tf now k rid t0 (Event ev) s = Done s1"
proof -
  have m1: "get_property stepMapping (ev_step ev) = Missing"
    using assms(1,2) by (simp add: get_property_def stepMapping_def stepProgress_def)
  have "map_of stepProgress (ev_step ev) = None"
    using assms(1) by (simp add: map_of_eq_None_iff)
  then have m2: "get_property stepProgress (ev_step ev) = Missing"
    using assms(2) by (simp add: get_property_def)
  have np: "ev_step ev \<noteq> ''pipeline''" "ev_step ev \<noteq> ''generate_prd''"
    using assms(1) by (simp_all add: stepProgress_def)
  let ?s3 = "s\<lparr>view := (view s)\<lparr>current_status := Text (or_str (ev_detail ev) [])\<rparr>\<rparr>"
  have u: "onmessage_try tf now k rid t0 (Event ev) s
      = and_then (sse_merge_data ev ?s3) (sse_pipeline tf now k rid t0 ev)"
    by (simp add: onmessage_try_def sse_update_step_def m1 sse_update_progress_def m2
        sse_status_text_def sse_prd_preview_def np)
  have "currentRun ?s3 \<noteq> None"
    using assms(3) by simp
  then obtain s5 where "sse_merge_data ev ?s3 = Done s5"
    using merge_data_Done by blast
  then show ?thesis
    by (simp add: u pipeline_other_step [OF np(1)])
qed

text \<open>
  Claim C9: when the step of an event is none of the known identifiers, the handler returns
  (its \<^verbatim>\<open>catch\<close> takes whatever is thrown) and neither a step element nor the progress bar
  has changed. Nothing is thrown at all when there is a current run and the step is not the
  name of a member of \<^verbatim>\<open>Object.prototype\<close>.
\<close>

theorem unknown_step_ignored:
  assumes "ev_step ev \<notin> set [''enhance_idea'', ''generate_prd'', ''create_repo'',
      ''extract_features'', ''implement'', ''publish'', ''pipeline'']"
  shows "step_view (view (onmessage tf now k rid t0 (Event ev) s)) = step_view (view s)
       \<and> overall_progress (view (onmessage tf now k rid t0 (Event ev) s)) = overall_progress (view s)
       \<and> (ev_step ev \<notin> set object_prototype_names \<and> currentRun s \<noteq> None \<longrightarrow>
            (\<exists>s1. onmessage_try tf now k rid t0 (Event ev) s = Done s1))"
proof -
  have u: "ev_step ev \<notin> set (map fst stepProgress)"
    using assms by (simp add: stepProgress_def)
  have "gauge (state_of (and_then (sse_update_step ev s) (sse_update_progress ev)))
        = gauge (state_of (sse_update_step ev s))"
    by (rule frame_chain) (rule update_progress_unknown [OF u])
  then have "gauge (onmessage tf now k rid t0 (Event ev) s) = gauge s"
    by (simp add: onmessage_gauge update_step_unknown [OF u])
  then show ?thesis
    using unknown_step_completes [OF u] by (simp add: gauge_def)
qed

theorem unknown_step_ignored_witness:
  "step_view (view (onmessage (\<lambda>q. ''1.5'') 1500 0 ''r1'' 0
       (Event (sample_event ''deploy'' ''completed'' ''Deployed'')) streaming_app))
     = step_view (view streaming_app)
   \<and> overall_progress (view (onmessage (\<lambda>q. ''1.5'') 1500 0 ''r1'' 0
       (Event (sample_event ''constructor'' ''completed'' ''x'')) streaming_app))
     = overall_progress (view streaming_app)
   \<and> (\<exists>s1. onmessage_try (\<lambda>q. ''1.5'') 1500 0 ''r1'' 0
       (Event (sample_event ''deploy'' ''completed'' ''Deployed'')) streaming_app = Done s1)"
  using unknown_step_ignored [of "sample_event ''deploy'' ''completed'' ''Deployed''"
      "\<lambda>q. ''1.5''" 1500 0 "''r1''" 0 streaming_app]
    unknown_step_ignored [of "sample_event ''constructor'' ''completed'' ''x''"
      "\<lambda>q. ''1.5''" 1500 0 "''r1''" 0 streaming_app]
  by (simp add: sample_event_def object_prototype_names_def streaming_app_def)

end
